theory Spec2Isabelle
  imports Main
begin

section \<open>Data model\<close>

text \<open>
  Keys and ciphertexts are opaque values of the external cryptographic engine; the model
  only carries them around. A decrypted record exposes its nonce and its amount
  (an unsigned 64-bit number that the engine hands over as a BigInt).
\<close>

datatype private_key = PrivateKey string
datatype view_key = ViewKey string
datatype record_ciphertext = RecordCiphertext string

record record_plaintext =
  nonce :: string
  microcredits :: nat

text \<open>The JSON of a block, as far as \<open>findUnspentRecords\<close> reads it. An optional
  field is \<open>None\<close> where the source tests for \<open>undefined\<close>.\<close>

record transition_output =
  output_type :: string
  output_value :: string

record transition =
  program :: string
  outputs :: "transition_output list option"

record execution =
  transitions :: "transition list option"

record transaction =
  execution :: "execution option"

record confirmed_transaction =
  tx_type :: string
  transaction :: transaction

record block =
  transactions :: "confirmed_transaction list option"

text \<open>
  The external engine (the wasm module): every call that can throw returns an option,
  \<open>None\<close> standing for the exception.
\<close>

record wasm =
  from_string :: "string \<Rightarrow> private_key option"
  to_view_key :: "private_key \<Rightarrow> view_key"
  fromString :: "string \<Rightarrow> record_ciphertext option"
  isOwner :: "record_ciphertext \<Rightarrow> view_key \<Rightarrow> bool"
  decrypt :: "record_ciphertext \<Rightarrow> view_key \<Rightarrow> record_plaintext option"
  serialNumberString :: "record_plaintext \<Rightarrow> private_key \<Rightarrow> string \<Rightarrow> string \<Rightarrow> string option"

text \<open>
  The remote ledger. The client is one sequential thread of requests, so the ledger is
  modelled by what it answers to the n-th request of the client: the first argument of
  each operation is that request number. \<open>None\<close> is a request that throws.
\<close>

record gateway =
  getLatestHeight :: "nat \<Rightarrow> int option"
  getBlockRange :: "nat \<Rightarrow> int \<Rightarrow> int \<Rightarrow> block list option"
  getTransitionId :: "nat \<Rightarrow> string \<Rightarrow> string option"

record client =
  account :: "private_key option"
  network :: gateway
  engine :: wasm

datatype private_key_arg = KeyObject private_key | KeyString string

datatype error =
    StartHeightNegative       \<comment> \<open>Start height must be greater than or equal to 0\<close>
  | PrivateKeyMissing         \<comment> \<open>Private key must be specified in an argument ...\<close>
  | PrivateKeyParseError      \<comment> \<open>Error parsing private key provided.\<close>
  | LatestHeightError         \<comment> \<open>Error fetching latest block height.\<close>
  | StartAfterEnd             \<comment> \<open>Start height must be less than or equal to end height.\<close>
  | LatestHeightUnavailable   \<comment> \<open>Error fetching latest height.\<close>
  | StartNotBelowEnd          \<comment> \<open>Start height must be less than end height\<close>

section \<open>AleoNetworkClient.findUnspentRecords\<close>

text \<open>
  The budget \<open>maxMicrocredits\<close> is any JavaScript number. The code compares the running
  total with \<open>BigInt(maxMicrocredits)\<close>, and \<open>BigInt\<close> throws a RangeError for a number that
  is not an integer. A finite number that is not an integer is given by its floor (150.5
  is \<open>NonInteger 150\<close>); \<open>NotFinite\<close> is NaN or an infinity.
\<close>

datatype js_number = Integer int | NonInteger int | NotFinite

fun BigInt :: "js_number \<Rightarrow> int option" where
  "BigInt (Integer i) = Some i"
| "BigInt (NonInteger i) = None"
| "BigInt NotFinite = None"

text \<open>The mutable locals of the scan: the result array, the running total, and the
  number of requests sent to the ledger so far.\<close>

record scan_state =
  records :: "record_plaintext list"
  totalRecordValue :: int
  requests :: nat

text \<open>The values fixed before the scan starts.\<close>

record search =
  ledger :: gateway
  crypto :: wasm
  resolvedPrivateKey :: private_key
  viewKey :: view_key
  amounts :: "int list option"
  maxMicrocredits :: "js_number option"
  nonces :: "string list"

text \<open>A loop body either falls through to the next iteration or executes
  \<open>return records\<close>.\<close>

datatype flow = Continue | Return

fun for_each :: "('a \<Rightarrow> 's \<Rightarrow> flow \<times> 's) \<Rightarrow> 'a list \<Rightarrow> 's \<Rightarrow> flow \<times> 's" where
  "for_each body [] s = (Continue, s)"
| "for_each body (x # xs) s =
     (case body x s of
        (Return, s') \<Rightarrow> (Return, s')
      | (Continue, s') \<Rightarrow> for_each body xs s')"

text \<open>The body of the \<open>catch\<close> block after a failed \<open>getTransitionId\<close>: the record is
  unspent. When \<open>BigInt\<close> throws, the record has been pushed and added to the total; the
  exception leaves the handler, the empty \<open>catch\<close> around the output swallows it, and the
  loop goes on with the next output.\<close>

definition on_unspent :: "search \<Rightarrow> record_plaintext \<Rightarrow> scan_state \<Rightarrow> flow \<times> scan_state" where
  "on_unspent q recordPlaintext s =
     (case amounts q of
        None \<Rightarrow>
          (let s1 = s\<lparr>records := records s @ [recordPlaintext]\<rparr> in
           case maxMicrocredits q of
             None \<Rightarrow> (Continue, s1)
           | Some m \<Rightarrow>
               (let s2 = s1\<lparr>totalRecordValue :=
                            totalRecordValue s1 + int (microcredits recordPlaintext)\<rparr> in
                case BigInt m of
                  None \<Rightarrow> (Continue, s2)
                | Some budget \<Rightarrow>
                    if totalRecordValue s2 \<ge> budget then (Return, s2) else (Continue, s2)))
      | Some am \<Rightarrow>
          if length am > 0 then
            (let amounts_found = (0::nat) in
             if int (microcredits recordPlaintext) > am ! amounts_found then
               (let s1 = s\<lparr>records := records s @ [recordPlaintext]\<rparr> in
                case maxMicrocredits q of
                  None \<Rightarrow>
                    if length (records s1) \<ge> length am then (Return, s1) else (Continue, s1)
                | Some m \<Rightarrow>
                    (let s2 = s1\<lparr>totalRecordValue :=
                                 totalRecordValue s1 + int (microcredits recordPlaintext)\<rparr> in
                     case BigInt m of
                       None \<Rightarrow> (Continue, s2)
                     | Some budget \<Rightarrow>
                         if totalRecordValue s2 \<ge> budget then (Return, s2)
                         else if length (records s2) \<ge> length am then (Return, s2)
                         else (Continue, s2)))
             else (Continue, s))
          else (Continue, s))"

text \<open>One output of a transition. Every exception of the engine is swallowed by the
  empty \<open>catch\<close> around the body, and the loop goes on with the next output.\<close>

definition scan_output :: "search \<Rightarrow> transition_output \<Rightarrow> scan_state \<Rightarrow> flow \<times> scan_state" where
  "scan_output q out s =
     (if output_type out = ''record'' then
        (case fromString (crypto q) (output_value out) of
           None \<Rightarrow> (Continue, s)
         | Some record \<Rightarrow>
             if isOwner (crypto q) record (viewKey q) then
               (case decrypt (crypto q) record (viewKey q) of
                  None \<Rightarrow> (Continue, s)
                | Some recordPlaintext \<Rightarrow>
                    if nonce recordPlaintext \<in> set (nonces q) then (Continue, s)
                    else
                      (case serialNumberString (crypto q) recordPlaintext
                              (resolvedPrivateKey q) ''credits.aleo'' ''credits'' of
                         None \<Rightarrow> (Continue, s)
                       | Some serialNumber \<Rightarrow>
                           (case getTransitionId (ledger q) (requests s) serialNumber of
                              Some found \<Rightarrow> (Continue, s\<lparr>requests := Suc (requests s)\<rparr>)
                            | None \<Rightarrow>
                                on_unspent q recordPlaintext
                                  (s\<lparr>requests := Suc (requests s)\<rparr>))))
             else (Continue, s))
      else (Continue, s))"

definition scan_transition :: "search \<Rightarrow> transition \<Rightarrow> scan_state \<Rightarrow> flow \<times> scan_state" where
  "scan_transition q tr s =
     (if program tr \<noteq> ''credits.aleo'' then (Continue, s)
      else case outputs tr of
             None \<Rightarrow> (Continue, s)
           | Some outs \<Rightarrow> for_each (scan_output q) outs s)"

definition scan_transaction ::
  "search \<Rightarrow> confirmed_transaction \<Rightarrow> scan_state \<Rightarrow> flow \<times> scan_state" where
  "scan_transaction q confirmedTransaction s =
     (if tx_type confirmedTransaction = ''execute'' then
        (case execution (transaction confirmedTransaction) of
           None \<Rightarrow> (Continue, s)
         | Some ex \<Rightarrow>
             (case transitions ex of
                None \<Rightarrow> (Continue, s)
              | Some trs \<Rightarrow> for_each (scan_transition q) trs s))
      else (Continue, s))"

definition scan_block :: "search \<Rightarrow> block \<Rightarrow> scan_state \<Rightarrow> flow \<times> scan_state" where
  "scan_block q b s =
     (case transactions b of
        None \<Rightarrow> (Continue, s)
      | Some txs \<Rightarrow> for_each (scan_transaction q) txs s)"

text \<open>\<open>start = end - 50; if (start < startHeight) start = startHeight\<close>\<close>

definition chunk_start :: "int \<Rightarrow> int \<Rightarrow> int" where
  "chunk_start startHeight end_h =
     (let start = end_h - 50 in if start < startHeight then startHeight else start)"

text \<open>
  The \<open>while (end > startHeight)\<close> loop. A fetch that throws leaves \<open>end\<close> as it was and
  counts a failure; a fetch that returns moves \<open>end\<close> down to \<open>start\<close> before the blocks
  are read.
\<close>

function scan_loop :: "search \<Rightarrow> int \<Rightarrow> int \<Rightarrow> nat \<Rightarrow> scan_state \<Rightarrow> scan_state" where
  "scan_loop q startHeight end_h failures s =
     (if end_h > startHeight then
        (case getBlockRange (ledger q) (requests s) (chunk_start startHeight end_h) end_h of
           None \<Rightarrow>
             if Suc failures > 10 then s\<lparr>requests := Suc (requests s)\<rparr>
             else scan_loop q startHeight end_h (Suc failures)
                    (s\<lparr>requests := Suc (requests s)\<rparr>)
         | Some blocks \<Rightarrow>
             (case for_each (scan_block q) blocks (s\<lparr>requests := Suc (requests s)\<rparr>) of
                (Return, s') \<Rightarrow> s'
              | (Continue, s') \<Rightarrow>
                  scan_loop q startHeight (chunk_start startHeight end_h) failures s'))
      else s)"
  by pat_completeness auto
termination
  by (relation "measures [\<lambda>(q, startHeight, end_h, failures, s). nat (end_h - startHeight),
                          \<lambda>(q, startHeight, end_h, failures, s). 11 - failures]")
     (auto simp: chunk_start_def Let_def)

declare scan_loop.simps [simp del]

definition resolve_private_key :: "client \<Rightarrow> private_key_arg option \<Rightarrow> error + private_key" where
  "resolve_private_key c privateKey =
     (case privateKey of
        None \<Rightarrow>
          (case account c of
             None \<Rightarrow> Inl PrivateKeyMissing
           | Some k \<Rightarrow> Inr k)
      | Some (KeyObject k) \<Rightarrow> Inr k
      | Some (KeyString str) \<Rightarrow>
          (case from_string (engine c) str of
             None \<Rightarrow> Inl PrivateKeyParseError
           | Some k \<Rightarrow> Inr k))"

definition resolve_end :: "int option \<Rightarrow> int \<Rightarrow> int" where
  "resolve_end endHeight latestHeight =
     (case endHeight of
        Some e \<Rightarrow> if e \<le> latestHeight then e else latestHeight
      | None \<Rightarrow> latestHeight)"

text \<open>
  \<open>findUnspentRecords c t \<dots>\<close> is the call made when the client has already sent \<open>t\<close>
  requests. Heights and target amounts are JavaScript numbers holding integers.
\<close>

definition findUnspentRecords ::
  "client \<Rightarrow> nat \<Rightarrow> int \<Rightarrow> int option \<Rightarrow> private_key_arg option \<Rightarrow> int list option \<Rightarrow>
   js_number option \<Rightarrow> string list option \<Rightarrow> error + record_plaintext list" where
  "findUnspentRecords c t startHeight endHeight privateKey amts maxM excluded =
     (let ns = (case excluded of None \<Rightarrow> [] | Some l \<Rightarrow> l) in
      if startHeight < 0 then Inl StartHeightNegative
      else
        (case resolve_private_key c privateKey of
           Inl e \<Rightarrow> Inl e
         | Inr key \<Rightarrow>
             (case getLatestHeight (network c) t of
                None \<Rightarrow> Inl LatestHeightError
              | Some latestHeight \<Rightarrow>
                  (let end_h = resolve_end endHeight latestHeight in
                   if startHeight > end_h then Inl StartAfterEnd
                   else
                     Inr (records
                       (scan_loop
                          \<lparr>ledger = network c, crypto = engine c, resolvedPrivateKey = key,
                           viewKey = to_view_key (engine c) key, amounts = amts,
                           maxMicrocredits = maxM, nonces = ns\<rparr>
                          startHeight end_h 0
                          \<lparr>records = [], totalRecordValue = 0, requests = Suc t\<rparr>))))))"

section \<open>An example ledger\<close>

definition example_engine :: wasm where
  "example_engine =
     \<lparr>from_string = (\<lambda>str. if str = [] then None else Some (PrivateKey str)),
      to_view_key = (\<lambda>k. case k of PrivateKey str \<Rightarrow> ViewKey str),
      fromString = (\<lambda>str. if str = [] then None else Some (RecordCiphertext str)),
      isOwner = (\<lambda>c v. case c of RecordCiphertext str \<Rightarrow> hd str \<noteq> CHR ''x''),
      decrypt = (\<lambda>c v. case c of RecordCiphertext str \<Rightarrow>
                   Some \<lparr>nonce = str, microcredits = 50 * length str\<rparr>),
      serialNumberString = (\<lambda>r k p n. Some (''sn_'' @ nonce r))\<rparr>"

definition example_output :: "string \<Rightarrow> transition_output" where
  "example_output v = \<lparr>output_type = ''record'', output_value = v\<rparr>"

definition example_block :: "string list \<Rightarrow> block" where
  "example_block vs =
     \<lparr>transactions = Some
        [\<lparr>tx_type = ''execute'',
          transaction = \<lparr>execution = Some \<lparr>transitions = Some
            [\<lparr>program = ''credits.aleo'', outputs = Some (map example_output vs)\<rparr>]\<rparr>\<rparr>\<rparr>]\<rparr>"

definition example_ledger :: gateway where
  "example_ledger =
     \<lparr>getLatestHeight = (\<lambda>t. Some 60),
      getBlockRange = (\<lambda>t start end_h.
         if end_h = 60 then Some [example_block [''aaa'', ''spent'', ''xyz'', ''bbb'', ''cccc'']]
         else None),
      getTransitionId = (\<lambda>t sn. if sn = ''sn_spent'' then Some ''tid'' else None)\<rparr>"

definition example_client :: client where
  "example_client = \<lparr>account = Some (PrivateKey ''k''), network = example_ledger, engine = example_engine\<rparr>"

definition example_search :: search where
  "example_search =
     \<lparr>ledger = example_ledger, crypto = example_engine, resolvedPrivateKey = PrivateKey ''k'',
      viewKey = ViewKey ''k'', amounts = None, maxMicrocredits = Some (Integer 200), nonces = []\<rparr>"

text \<open>A ledger whose block-range requests all fail.\<close>

definition unreachable_client :: client where
  "unreachable_client =
     example_client\<lparr>network := example_ledger\<lparr>getBlockRange := (\<lambda>t start end_h. None)\<rparr>\<rparr>"

text \<open>A ledger whose first three block-range requests of a call fail (the requests 1 to
  3, after the request for the latest height).\<close>

definition flaky_client :: client where
  "flaky_client =
     example_client\<lparr>network := example_ledger\<lparr>getBlockRange := (\<lambda>t start end_h.
        if t < 4 then None else getBlockRange example_ledger t start end_h)\<rparr>\<rparr>"

section \<open>Invariants of the scan\<close>

definition keeps :: "('s \<Rightarrow> bool) \<Rightarrow> ('s \<Rightarrow> bool) \<Rightarrow> ('s \<Rightarrow> flow \<times> 's) \<Rightarrow> bool" where
  "keeps I R body \<longleftrightarrow>
     (\<forall>s s'. I s \<longrightarrow> (body s = (Continue, s') \<longrightarrow> I s') \<and> (body s = (Return, s') \<longrightarrow> R s'))"

definition unspent_at :: "search \<Rightarrow> nat \<Rightarrow> scan_state \<Rightarrow> bool" where
  "unspent_at q t s \<longleftrightarrow>
     t < requests s \<and>
     (\<forall>r \<in> set (records s). \<exists>sn n. t < n \<and>
        serialNumberString (crypto q) r (resolvedPrivateKey q) ''credits.aleo'' ''credits'' = Some sn \<and>
        getTransitionId (ledger q) n sn = None)"

definition not_excluded :: "search \<Rightarrow> scan_state \<Rightarrow> bool" where
  "not_excluded q s \<longleftrightarrow> (\<forall>r \<in> set (records s). nonce r \<notin> set (nonces q))"

definition sum_microcredits :: "record_plaintext list \<Rightarrow> int" where
  "sum_microcredits rs = sum_list (map (\<lambda>r. int (microcredits r)) rs)"

definition below_budget :: "int \<Rightarrow> scan_state \<Rightarrow> bool" where
  "below_budget m s \<longleftrightarrow>
     totalRecordValue s = sum_microcredits (records s) \<and>
     (\<forall>k. 0 < k \<and> k \<le> length (records s) \<longrightarrow> sum_microcredits (take k (records s)) < m)"



text \<open>A scan with the budget \<open>m\<close> in state \<open>s\<close> and the same scan without budget in state
  \<open>s'\<close> have done the same so far.\<close>

definition tracks :: "int \<Rightarrow> scan_state \<Rightarrow> scan_state \<Rightarrow> bool" where
  "tracks m s s' \<longleftrightarrow> records s' = records s \<and> requests s' = requests s \<and> below_budget m s"




section \<open>AleoKeyProvider\<close>

text \<open>
  Keys are values of the external engine; the model identifies a key with the bytes that
  \<open>toBytes\<close> gives. Deserialising may throw.
\<close>

type_synonym bytes = "nat list"

datatype proving_key = ProvingKey (proving_toBytes: bytes)

datatype verifying_key = VerifyingKey (verifying_toBytes: bytes)

record key_engine =
  provingKeyFromBytes :: "bytes \<Rightarrow> proving_key option"
  verifyingKeyFromBytes :: "bytes \<Rightarrow> verifying_key option"
  verifyingKeyFromString :: "string \<Rightarrow> verifying_key option"
  creditsVerifier :: "string \<Rightarrow> verifying_key"

text \<open>The server holding the parameters: \<open>get(url)\<close> read as bytes or as text; \<open>None\<close> is
  a request that throws.\<close>

record key_store =
  fetchBytes :: "string \<Rightarrow> bytes option"
  fetchText :: "string \<Rightarrow> string option"

record key_provider =
  cache :: "string \<rightharpoonup> bytes \<times> bytes"
  cacheOption :: bool

record key_search_params =
  proverUri :: "string option"
  verifierUri :: "string option"
  cacheKey :: "string option"

text \<open>What \<open>getVerifyingKey\<close> returns: a key, or the value
  \<open>new Error("Invalid verifying key. ...")\<close>.\<close>

datatype verifier = Verifier verifying_key | InvalidVerifyingKey

text \<open>What \<open>functionKeys\<close> resolves to: a pair, or the value
  \<open>new Error("Key not found in cache.")\<close> that \<open>getKeys\<close> returns.\<close>

datatype function_keys = KeyPair proving_key verifier | KeyNotFound

datatype key_error =
    InvalidParameters   \<comment> \<open>Invalid parameters provided, must provide either a cacheKey and/or ...\<close>
  | FetchKeysError      \<comment> \<open>Error: ... fetching fee proving and verifying keys from ... and ...\<close>
  | KeyDecodeError      \<comment> \<open>an exception of \<open>fromBytes\<close> that nothing catches\<close>
  | InvalidVisibility   \<comment> \<open>Invalid visibility type\<close>

definition KEY_STORE :: string where
  "KEY_STORE = ''https://testnet3.parameters.aleo.org/''"

record credits_key =
  locator :: string
  prover :: string
  verifier :: string
  verifyingKeyMethod :: string

definition CREDITS_PROGRAM_KEYS :: "(string \<times> credits_key) list" where
  "CREDITS_PROGRAM_KEYS =
    [(''bond_public'', \<lparr>locator = ''credits.aleo/bond_public'', prover = KEY_STORE @ ''bond_public.prover.9c3547d'',
      verifier = ''bond_public.verifier.10315ae'', verifyingKeyMethod = ''bondPublicVerifier''\<rparr>),
     (''claim_unbond_public'', \<lparr>locator = ''credits.aleo/claim_unbond_public'',
      prover = KEY_STORE @ ''claim_unbond_public.prover.f8b64aa'',
      verifier = ''claim_unbond_public.verifier.8fd7445'',
      verifyingKeyMethod = ''claimUnbondPublicVerifier''\<rparr>),
     (''fee_private'', \<lparr>locator = ''credits.aleo/fee_private'', prover = KEY_STORE @ ''fee_private.prover.43fab98'',
      verifier = ''fee_private.verifier.f3dfefc'', verifyingKeyMethod = ''feePrivateVerifier''\<rparr>),
     (''fee_public'', \<lparr>locator = ''credits.aleo/fee_public'', prover = KEY_STORE @ ''fee_public.prover.634f153'',
      verifier = ''fee_public.verifier.09eeb4f'', verifyingKeyMethod = ''feePublicVerifier''\<rparr>),
     (''inclusion'', \<lparr>locator = ''inclusion'', prover = KEY_STORE @ ''inclusion.prover.cd85cc5'',
      verifier = ''inclusion.verifier.e6f3add'', verifyingKeyMethod = ''inclusionVerifier''\<rparr>),
     (''join'', \<lparr>locator = ''credits.aleo/join'', prover = KEY_STORE @ ''join.prover.1a76fe8'',
      verifier = ''join.verifier.4f1701b'', verifyingKeyMethod = ''joinVerifier''\<rparr>),
     (''set_validator_state'', \<lparr>locator = ''credits.aleo/set_validator_state'',
      prover = KEY_STORE @ ''set_validator_state.prover.5ce19be'',
      verifier = ''set_validator_state.verifier.730d95b'',
      verifyingKeyMethod = ''setValidatorStateVerifier''\<rparr>),
     (''split'', \<lparr>locator = ''credits.aleo/split'', prover = KEY_STORE @ ''split.prover.e6d12b9'',
      verifier = ''split.verifier.2f9733d'', verifyingKeyMethod = ''splitVerifier''\<rparr>),
     (''transfer_private'', \<lparr>locator = ''credits.aleo/transfer_private'',
      prover = KEY_STORE @ ''transfer_private.prover.2b487c0'',
      verifier = ''transfer_private.verifier.3a3cbba'', verifyingKeyMethod = ''transferPrivateVerifier''\<rparr>),
     (''transfer_private_to_public'', \<lparr>locator = ''credits.aleo/transfer_private_to_public'',
      prover = KEY_STORE @ ''transfer_private_to_public.prover.1ff64cb'',
      verifier = ''transfer_private_to_public.verifier.d5b60de'',
      verifyingKeyMethod = ''transferPrivateToPublicVerifier''\<rparr>),
     (''transfer_public'', \<lparr>locator = ''credits.aleo/transfer_public'',
      prover = KEY_STORE @ ''transfer_public.prover.a74565e'',
      verifier = ''transfer_public.verifier.a4c2906'', verifyingKeyMethod = ''transferPublicVerifier''\<rparr>),
     (''transfer_public_to_private'', \<lparr>locator = ''credits.aleo/transfer_public_to_private'',
      prover = KEY_STORE @ ''transfer_public_to_private.prover.1bcddf9'',
      verifier = ''transfer_public_to_private.verifier.b094554'',
      verifyingKeyMethod = ''transferPublicToPrivateVerifier''\<rparr>),
     (''unbond_delegator_as_validator'', \<lparr>locator = ''credits.aleo/unbond_delegator_as_validator'',
      prover = KEY_STORE @ ''unbond_delegator_as_validator.prover.115a86b'',
      verifier = ''unbond_delegator_as_validator.verifier.9585609'',
      verifyingKeyMethod = ''unbondDelegatorAsValidatorVerifier''\<rparr>),
     (''unbond_public'', \<lparr>locator = ''credits.aleo/unbond_public'', prover = KEY_STORE @ ''unbond_public.prover.9547c05'',
      verifier = ''unbond_public.verifier.09873cd'', verifyingKeyMethod = ''unbondPublicVerifier''\<rparr>)]"

text \<open>JavaScript truthiness of a variable that is \<open>undefined\<close> or a string.\<close>

fun truthy :: "string option \<Rightarrow> bool" where
  "truthy None = False"
| "truthy (Some str) = (str \<noteq> [])"

text \<open>The \<open>switch\<close> over the verifier names of the credits program picks the compiled-in
  key; any other URI is fetched as text, then as bytes.\<close>

definition getVerifyingKey :: "key_engine \<Rightarrow> key_store \<Rightarrow> string \<Rightarrow> verifier" where
  "getVerifyingKey e net uri =
     (case find (\<lambda>k. verifier k = uri) (map snd CREDITS_PROGRAM_KEYS) of
        Some k \<Rightarrow> Verifier (creditsVerifier e (verifyingKeyMethod k))
      | None \<Rightarrow>
          (case Option.bind (fetchText net uri) (verifyingKeyFromString e) of
             Some vk \<Rightarrow> Verifier vk
           | None \<Rightarrow>
               (case Option.bind (fetchBytes net uri) (verifyingKeyFromBytes e) of
                  Some vk \<Rightarrow> Verifier vk
                | None \<Rightarrow> InvalidVerifyingKey)))"

definition getKeys :: "key_engine \<Rightarrow> key_provider \<Rightarrow> string \<Rightarrow> key_error + function_keys" where
  "getKeys e p keyId =
     (case cache p keyId of
        Some (provingKeyBytes, verifyingKeyBytes) \<Rightarrow>
          (case provingKeyFromBytes e provingKeyBytes of
             None \<Rightarrow> Inl KeyDecodeError
           | Some pk \<Rightarrow>
               (case verifyingKeyFromBytes e verifyingKeyBytes of
                  None \<Rightarrow> Inl KeyDecodeError
                | Some vk \<Rightarrow> Inr (KeyPair pk (Verifier vk))))
      | None \<Rightarrow> Inr KeyNotFound)"

text \<open>\<open>if (!cacheKey) cacheKey = proverUrl\<close>\<close>

definition cache_key_or :: "string option \<Rightarrow> string \<Rightarrow> string" where
  "cache_key_or key proverUrl = (if truthy key then the key else proverUrl)"

text \<open>Every exception inside \<open>fetchKeys\<close> is caught and thrown again as one error. With
  the cache enabled, an invalid verifying key has no \<open>toBytes\<close>, which throws.\<close>

definition fetchKeys ::
  "key_engine \<Rightarrow> key_store \<Rightarrow> key_provider \<Rightarrow> string \<Rightarrow> string \<Rightarrow> string option \<Rightarrow>
   (key_error + function_keys) \<times> key_provider" where
  "fetchKeys e net p proverUrl verifierUrl optionalKey =
     (if cacheOption p then
        (let key = cache_key_or optionalKey proverUrl in
         case cache p key of
           Some value \<Rightarrow>
             (case provingKeyFromBytes e (fst value) of
                None \<Rightarrow> (Inl FetchKeysError, p)
              | Some pk \<Rightarrow>
                  (case verifyingKeyFromBytes e (snd value) of
                     None \<Rightarrow> (Inl FetchKeysError, p)
                   | Some vk \<Rightarrow> (Inr (KeyPair pk (Verifier vk)), p)))
         | None \<Rightarrow>
             (case Option.bind (fetchBytes net proverUrl) (provingKeyFromBytes e) of
                None \<Rightarrow> (Inl FetchKeysError, p)
              | Some provingKey \<Rightarrow>
                  (case getVerifyingKey e net verifierUrl of
                     InvalidVerifyingKey \<Rightarrow> (Inl FetchKeysError, p)
                   | Verifier vk \<Rightarrow>
                       (Inr (KeyPair provingKey (Verifier vk)),
                        p\<lparr>cache := (cache p)(key \<mapsto>
                                       (proving_toBytes provingKey, verifying_toBytes vk))\<rparr>))))
      else
        (case Option.bind (fetchBytes net proverUrl) (provingKeyFromBytes e) of
           None \<Rightarrow> (Inl FetchKeysError, p)
         | Some provingKey \<Rightarrow>
             (Inr (KeyPair provingKey (getVerifyingKey e net verifierUrl)), p)))"

definition functionKeys ::
  "key_engine \<Rightarrow> key_store \<Rightarrow> key_provider \<Rightarrow> key_search_params option \<Rightarrow>
   (key_error + function_keys) \<times> key_provider" where
  "functionKeys e net p params =
     (case params of
        None \<Rightarrow> (Inl InvalidParameters, p)
      | Some ps \<Rightarrow>
          (let proverUrl = proverUri ps; verifierUrl = verifierUri ps; key = cacheKey ps in
           if truthy proverUrl \<and> truthy verifierUrl then
             fetchKeys e net p (the proverUrl) (the verifierUrl) key
           else if truthy key then (getKeys e p (the key), p)
           else (Inl InvalidParameters, p)))"

definition example_key_engine :: key_engine where
  "example_key_engine =
     \<lparr>provingKeyFromBytes = (\<lambda>b. if b = [] then None else Some (ProvingKey b)),
      verifyingKeyFromBytes = (\<lambda>b. if b = [] then None else Some (VerifyingKey b)),
      verifyingKeyFromString = (\<lambda>str. if str = [] then None else Some (VerifyingKey (map of_char str))),
      creditsVerifier = (\<lambda>name. VerifyingKey (map of_char name))\<rparr>"

definition example_key_store :: key_store where
  "example_key_store =
     \<lparr>fetchBytes = (\<lambda>url. if url = ''https://keys/p'' then Some [1, 2, 3] else None),
      fetchText = (\<lambda>url. if url = ''https://keys/v'' then Some ''vk'' else None)\<rparr>"

definition example_key_provider :: key_provider where
  "example_key_provider =
     \<lparr>cache = [''credits.aleo/join'' \<mapsto> ([7, 7], [8, 8])], cacheOption = True\<rparr>"

definition example_uri_params :: key_search_params where
  "example_uri_params =
     \<lparr>proverUri = Some ''https://keys/p'', verifierUri = Some ''https://keys/v'', cacheKey = None\<rparr>"

definition example_cache_params :: "string \<Rightarrow> key_search_params" where
  "example_cache_params key = \<lparr>proverUri = None, verifierUri = None, cacheKey = Some key\<rparr>"

section \<open>NetworkRecordProvider\<close>

text \<open>
  The search parameters are an object read by property name. \<open>None\<close> is a property that
  is not there. The value of \<open>endHeight\<close> is a number or anything else; the value of
  \<open>startHeight\<close>, when there, is taken to be a number.
\<close>

datatype property = Number int | NotANumber

record record_search_params =
  search_startHeight :: "int option"
  search_endHeight :: "property option"

record network_record_provider =
  provider_account :: private_key
  networkClient :: client

text \<open>The check of the range and the call of the client that end \<open>findCreditsRecords\<close>.\<close>

definition search_range ::
  "network_record_provider \<Rightarrow> nat \<Rightarrow> int list \<Rightarrow> string list option \<Rightarrow> int \<Rightarrow> int \<Rightarrow>
   error + record_plaintext list" where
  "search_range p t targets excluded startHeight endHeight =
     (if startHeight \<ge> endHeight then Inl StartNotBelowEnd
      else findUnspentRecords (networkClient p) t startHeight (Some endHeight)
             (Some (KeyObject (provider_account p))) (Some targets) None excluded)"

definition findCreditsRecords ::
  "network_record_provider \<Rightarrow> nat \<Rightarrow> int list \<Rightarrow> bool \<Rightarrow> string list option \<Rightarrow>
   record_search_params option \<Rightarrow> error + record_plaintext list" where
  "findCreditsRecords p t targets unspent excluded searchParameters =
     (let startHeight =
            (case searchParameters of
               None \<Rightarrow> 0
             | Some sp \<Rightarrow>
                 (case (search_startHeight sp, search_endHeight sp) of
                    (Some v, Some (Number e)) \<Rightarrow> v
                  | _ \<Rightarrow> 0));
          endHeight =
            (case searchParameters of
               None \<Rightarrow> 0
             | Some sp \<Rightarrow>
                 (case search_endHeight sp of
                    Some (Number e) \<Rightarrow> e
                  | _ \<Rightarrow> 0))
      in if endHeight = 0 then
           (case getLatestHeight (network (networkClient p)) t of
              None \<Rightarrow> Inl LatestHeightUnavailable
            | Some end_h \<Rightarrow> search_range p (Suc t) targets excluded startHeight end_h)
         else search_range p t targets excluded startHeight endHeight)"

definition example_provider :: network_record_provider where
  "example_provider = \<lparr>provider_account = PrivateKey ''k'', networkClient = example_client\<rparr>"

section \<open>Transfer kinds\<close>









section \<open>ProgramManager\<close>

datatype pm_error =
    InvalidTransferType   \<comment> \<open>Invalid transfer type '...'. Valid transfer types are ...\<close>
  | NoPrivateKey          \<comment> \<open>No private key provided and no private key set in the ProgramManager\<close>
  | ProgramNotFound       \<comment> \<open>Error finding .... Network response: ...\<close>
  | FeeRecordError        \<comment> \<open>Error finding fee record. Record finder response: ...\<close>
  | FeeKeysError          \<comment> \<open>Error finding fee keys. Key finder response: ...\<close>
  | ImportsError          \<comment> \<open>Error finding program imports. Network response: ...\<close>
  | TypeError             \<comment> \<open>destructuring an Error value, or calling \<open>nonce\<close> on one\<close>
  | InvalidProgram        \<comment> \<open>an exception of \<open>Program.fromString\<close>\<close>

text \<open>A record argument is a plaintext object or a string to parse; what the record
  provider resolves to is a record or the value \<open>new Error("Record not found")\<close>.\<close>

datatype record_input = PlaintextObject record_plaintext | RecordString string

datatype found = Found record_plaintext | RecordNotFound

datatype program_input = ProgramObject string | ProgramSource string

text \<open>What a call does besides returning: the queries it sends to the record provider
  (amount and excluded nonces) and what it writes to the console.\<close>

datatype 'n event =
    FindCreditsRecord 'n "string list"
  | KeysNotFoundLog
  | ErrorLog pm_error

text \<open>
  The program manager with its collaborators: the key provider and the record provider
  are interfaces, the ledger is asked for programs, and the engine parses records and
  programs. \<open>None\<close> is a call that throws. Credits and fees are JavaScript numbers that
  the manager only passes on; their type is left open.
\<close>

record 'n program_manager =
  pm_account :: "private_key option"
  pm_functionKeys :: "key_search_params option \<Rightarrow> function_keys option"
  pm_feePrivateKeys :: "function_keys option"
  pm_feePublicKeys :: "function_keys option"
  pm_transferKeys :: "string \<Rightarrow> function_keys option"
  pm_findCreditsRecord ::
    "'n \<Rightarrow> bool \<Rightarrow> string list \<Rightarrow> record_search_params option \<Rightarrow> found option"
  pm_getProgram :: "string \<Rightarrow> string option"
  pm_getProgramImports :: "string \<Rightarrow> (string \<times> string) list option"
  pm_importCount :: "string \<Rightarrow> nat option"
  pm_recordFromString :: "string \<Rightarrow> record_plaintext option"

record 'n execute_options =
  opt_programName :: string
  opt_functionName :: string
  opt_fee :: 'n
  opt_privateFee :: bool
  opt_inputs :: "string list"
  opt_recordSearchParams :: "record_search_params option"
  opt_keySearchParams :: "key_search_params option"
  opt_privateKey :: "private_key option"
  opt_offlineQuery :: "string option"
  opt_feeRecord :: "record_input option"
  opt_provingKey :: "proving_key option"
  opt_verifyingKey :: "verifying_key option"
  opt_program :: "program_input option"
  opt_imports :: "(string \<times> string) list option"

text \<open>The arguments handed to the engine's \<open>buildExecutionTransaction\<close>,
  \<open>executeFunctionOffline\<close> and \<open>buildTransferTransaction\<close>.\<close>

record 'n execution_request =
  req_privateKey :: private_key
  req_program :: string
  req_function :: string
  req_inputs :: "string list"
  req_fee :: 'n
  req_feeRecord :: "found option"
  req_imports :: "(string \<times> string) list option"
  req_provingKey :: "proving_key option"
  req_verifyingKey :: "verifier option"
  req_feeProvingKey :: proving_key
  req_feeVerifyingKey :: verifier
  req_offlineQuery :: "string option"

record run_request =
  run_privateKey :: private_key
  run_program :: string
  run_function :: string
  run_inputs :: "string list"
  run_proveExecution :: bool
  run_imports :: "(string \<times> string) list option"
  run_provingKey :: "proving_key option"
  run_verifyingKey :: "verifier option"
  run_offlineQuery :: "string option"


text \<open>Sequencing of steps that leave events and may throw.\<close>

definition and_then ::
  "'e list \<times> ('x + 'a) \<Rightarrow> ('a \<Rightarrow> 'e list \<times> ('x + 'b)) \<Rightarrow> 'e list \<times> ('x + 'b)" where
  "and_then m f =
     (case m of
        (ev, Inl x) \<Rightarrow> (ev, Inl x)
      | (ev, Inr a) \<Rightarrow> (case f a of (ev', r) \<Rightarrow> (ev @ ev', r)))"

text \<open>\<open>logAndThrow\<close> writes the message to the console and throws it.\<close>

definition logAndThrow :: "pm_error \<Rightarrow> 'n event list \<times> (pm_error + 'a)" where
  "logAndThrow message = ([ErrorLog message], Inl message)"



definition execution_private_key ::
  "'n program_manager \<Rightarrow> private_key option \<Rightarrow> 'n event list \<times> (pm_error + private_key)" where
  "execution_private_key pm privateKey =
     (case privateKey of
        Some k \<Rightarrow> ([], Inr k)
      | None \<Rightarrow>
          (case pm_account pm of
             Some k \<Rightarrow> ([], Inr k)
           | None \<Rightarrow> ([], Inl NoPrivateKey)))"

text \<open>\<open>record instanceof RecordPlaintext ? record : RecordPlaintext.fromString(record)\<close>;
  \<open>None\<close> when this throws, as it does for \<open>undefined\<close>.\<close>

definition given_record :: "'n program_manager \<Rightarrow> record_input option \<Rightarrow> record_plaintext option" where
  "given_record pm r =
     (case r of
        None \<Rightarrow> None
      | Some (PlaintextObject plaintext) \<Rightarrow> Some plaintext
      | Some (RecordString str) \<Rightarrow> pm_recordFromString pm str)"

definition getCreditsRecord ::
  "'n program_manager \<Rightarrow> 'n \<Rightarrow> string list \<Rightarrow> record_input option \<Rightarrow>
   record_search_params option \<Rightarrow> 'n event list \<times> (pm_error + found)" where
  "getCreditsRecord pm amount excluded r params =
     (case given_record pm r of
        Some plaintext \<Rightarrow> ([], Inr (Found plaintext))
      | None \<Rightarrow>
          (case pm_findCreditsRecord pm amount True excluded params of
             None \<Rightarrow> and_then ([FindCreditsRecord amount excluded], Inr ())
                       (\<lambda>_. logAndThrow FeeRecordError)
           | Some f \<Rightarrow> ([FindCreditsRecord amount excluded], Inr f)))"

text \<open>A \<open>try\<close> whose \<open>catch\<close> logs and throws the fee-record message.\<close>

definition or_fee_record_error ::
  "'n event list \<times> (pm_error + 'a) \<Rightarrow> 'n event list \<times> (pm_error + 'a)" where
  "or_fee_record_error m =
     (case m of
        (ev, Inl x) \<Rightarrow> (ev @ [ErrorLog FeeRecordError], Inl FeeRecordError)
      | (ev, Inr a) \<Rightarrow> (ev, Inr a))"

definition fee_record_step ::
  "'n program_manager \<Rightarrow> bool \<Rightarrow> 'n \<Rightarrow> string list \<Rightarrow> record_input option \<Rightarrow>
   record_search_params option \<Rightarrow> 'n event list \<times> (pm_error + found option)" where
  "fee_record_step pm privateFee fee excluded feeRecord params =
     (if privateFee then
        and_then (getCreditsRecord pm fee excluded feeRecord params) (\<lambda>f. ([], Inr (Some f)))
      else ([], Inr None))"

text \<open>\<open>const [provingKey, verifyingKey] = keys\<close>: an Error value is not iterable.\<close>

definition destructure :: "function_keys \<Rightarrow> 'n event list \<times> (pm_error + proving_key \<times> verifier)" where
  "destructure keys =
     (case keys of
        KeyPair pk vk \<Rightarrow> ([], Inr (pk, vk))
      | KeyNotFound \<Rightarrow> ([], Inl TypeError))"

definition fee_keys_step ::
  "'n program_manager \<Rightarrow> bool \<Rightarrow> 'n event list \<times> (pm_error + function_keys)" where
  "fee_keys_step pm privateFee =
     (case (if privateFee then pm_feePrivateKeys pm else pm_feePublicKeys pm) of
        None \<Rightarrow> logAndThrow FeeKeysError
      | Some keys \<Rightarrow> ([], Inr keys))"

text \<open>
  The function keys: asked from the key provider unless both are given. The \<open>catch\<close>
  covers the call and the destructuring of its result, writes one line to the console and
  leaves both variables as they were.
\<close>

definition function_keys_step ::
  "'n program_manager \<Rightarrow> proving_key option \<Rightarrow> verifying_key option \<Rightarrow>
   key_search_params option \<Rightarrow> 'n event list \<times> (proving_key option \<times> verifier option)" where
  "function_keys_step pm provingKey verifyingKey keySearchParams =
     (if provingKey = None \<or> verifyingKey = None then
        (case pm_functionKeys pm keySearchParams of
           Some (KeyPair pk vk) \<Rightarrow> ([], (Some pk, Some vk))
         | _ \<Rightarrow> ([KeysNotFoundLog], (provingKey, map_option Verifier verifyingKey)))
      else ([], (provingKey, map_option Verifier verifyingKey)))"

definition resolve_program ::
  "'n program_manager \<Rightarrow> string \<Rightarrow> program_input option \<Rightarrow> 'n event list \<times> (pm_error + string)" where
  "resolve_program pm programName prog =
     (case prog of
        None \<Rightarrow>
          (case pm_getProgram pm programName of
             None \<Rightarrow> logAndThrow ProgramNotFound
           | Some source \<Rightarrow> ([], Inr source))
      | Some (ProgramObject source) \<Rightarrow> ([], Inr source)
      | Some (ProgramSource source) \<Rightarrow> ([], Inr source))"

definition imports_step ::
  "'n program_manager \<Rightarrow> string \<Rightarrow> string \<Rightarrow> (string \<times> string) list option \<Rightarrow>
   'n event list \<times> (pm_error + (string \<times> string) list option)" where
  "imports_step pm programName source imps =
     (case pm_importCount pm source of
        None \<Rightarrow> ([], Inl InvalidProgram)
      | Some numberOfImports \<Rightarrow>
          if numberOfImports > 0 \<and> imps = None then
            (case pm_getProgramImports pm programName of
               None \<Rightarrow> logAndThrow ImportsError
             | Some found_imports \<Rightarrow> ([], Inr (Some found_imports)))
          else ([], Inr imps))"

definition buildExecutionTransaction ::
  "'n program_manager \<Rightarrow> 'n execute_options \<Rightarrow> 'n event list \<times> (pm_error + 'n execution_request)" where
  "buildExecutionTransaction pm options =
     and_then (resolve_program pm (opt_programName options) (opt_program options)) (\<lambda>source.
     and_then (execution_private_key pm (opt_privateKey options)) (\<lambda>executionPrivateKey.
     and_then (or_fee_record_error
                 (fee_record_step pm (opt_privateFee options) (opt_fee options) []
                    (opt_feeRecord options) (opt_recordSearchParams options))) (\<lambda>feeRecord.
     and_then (fee_keys_step pm (opt_privateFee options)) (\<lambda>feeKeys.
     and_then (destructure feeKeys) (\<lambda>(feeProvingKey, feeVerifyingKey).
     (case function_keys_step pm (opt_provingKey options) (opt_verifyingKey options)
             (opt_keySearchParams options) of
        (ev, (provingKey, verifyingKey)) \<Rightarrow>
          and_then (ev, Inr ()) (\<lambda>_.
          and_then (imports_step pm (opt_programName options) source (opt_imports options))
            (\<lambda>imps.
               ([], Inr \<lparr>req_privateKey = executionPrivateKey, req_program = source,
                         req_function = opt_functionName options, req_inputs = opt_inputs options,
                         req_fee = opt_fee options, req_feeRecord = feeRecord, req_imports = imps,
                         req_provingKey = provingKey, req_verifyingKey = verifyingKey,
                         req_feeProvingKey = feeProvingKey,
                         req_feeVerifyingKey = feeVerifyingKey,
                         req_offlineQuery = opt_offlineQuery options\<rparr>)))))))))"

definition run ::
  "'n program_manager \<Rightarrow> string \<Rightarrow> string \<Rightarrow> string list \<Rightarrow> bool \<Rightarrow>
   (string \<times> string) list option \<Rightarrow> key_search_params option \<Rightarrow> proving_key option \<Rightarrow>
   verifying_key option \<Rightarrow> private_key option \<Rightarrow> string option \<Rightarrow>
   'n event list \<times> (pm_error + run_request)" where
  "run pm source function_name ins proveExecution imps keySearchParams provingKey verifyingKey
       privateKey offlineQuery =
     and_then (execution_private_key pm privateKey) (\<lambda>executionPrivateKey.
     (case function_keys_step pm provingKey verifyingKey keySearchParams of
        (ev, (pk, vk)) \<Rightarrow>
          (ev, Inr \<lparr>run_privateKey = executionPrivateKey, run_program = source,
                    run_function = function_name, run_inputs = ins,
                    run_proveExecution = proveExecution, run_imports = imps,
                    run_provingKey = pk, run_verifyingKey = vk,
                    run_offlineQuery = offlineQuery\<rparr>)))"






definition example_manager :: "int program_manager" where
  "example_manager =
     \<lparr>pm_account = Some (PrivateKey ''k''),
      pm_functionKeys = (\<lambda>ps. None),
      pm_feePrivateKeys = Some (KeyPair (ProvingKey [1]) (Verifier (VerifyingKey [2]))),
      pm_feePublicKeys = Some (KeyPair (ProvingKey [3]) (Verifier (VerifyingKey [4]))),
      pm_transferKeys = (\<lambda>t. Some (KeyPair (ProvingKey [5]) (Verifier (VerifyingKey [6])))),
      pm_findCreditsRecord = (\<lambda>a u ex ps.
         if ''r1'' \<in> set ex then Some (Found \<lparr>nonce = ''r2'', microcredits = 9\<rparr>)
         else Some (Found \<lparr>nonce = ''r1'', microcredits = 7\<rparr>)),
      pm_getProgram = (\<lambda>n. Some ''program hello.aleo;''),
      pm_getProgramImports = (\<lambda>n. Some []),
      pm_importCount = (\<lambda>src. Some 0),
      pm_recordFromString = (\<lambda>str. None)\<rparr>"

definition example_options :: "int execute_options" where
  "example_options =
     \<lparr>opt_programName = ''hello.aleo'', opt_functionName = ''hello'', opt_fee = 20,
      opt_privateFee = False, opt_inputs = [''5u32'', ''5u32''], opt_recordSearchParams = None,
      opt_keySearchParams = Some (example_cache_params ''hello.aleo/hello''),
      opt_privateKey = None, opt_offlineQuery = None, opt_feeRecord = None,
      opt_provingKey = None, opt_verifyingKey = None, opt_program = None, opt_imports = None\<rparr>"

section \<open>Lifting an invariant through the loops of the scan\<close>

lemma for_each_keeps:
  "(\<And>x. x \<in> set xs \<Longrightarrow> keeps I R (body x)) \<Longrightarrow> keeps I R (for_each body xs)"
proof (induction xs)
  case Nil
  show ?case by (simp add: keeps_def)
next
  case (Cons x xs)
  have hx: "keeps I R (body x)" using Cons.prems by simp
  have hxs: "keeps I R (for_each body xs)" using Cons.IH Cons.prems by simp
  show ?case
    unfolding keeps_def
  proof (intro allI impI conjI)
    fix s s' assume i: "I s" and e: "for_each body (x # xs) s = (Continue, s')"
    obtain c s1 where b: "body x s = (c, s1)" by (cases "body x s")
    show "I s'"
    proof (cases c)
      case Continue
      with b i hx have "I s1" by (auto simp: keeps_def)
      moreover from e b Continue have "for_each body xs s1 = (Continue, s')" by simp
      ultimately show ?thesis using hxs by (auto simp: keeps_def)
    next
      case Return
      with e b show ?thesis by simp
    qed
  next
    fix s s' assume i: "I s" and e: "for_each body (x # xs) s = (Return, s')"
    obtain c s1 where b: "body x s = (c, s1)" by (cases "body x s")
    show "R s'"
    proof (cases c)
      case Continue
      with b i hx have "I s1" by (auto simp: keeps_def)
      moreover from e b Continue have "for_each body xs s1 = (Return, s')" by simp
      ultimately show ?thesis using hxs by (auto simp: keeps_def)
    next
      case Return
      with e b have "s' = s1" by simp
      with b i hx Return show ?thesis by (auto simp: keeps_def)
    qed
  qed
qed

lemma keepsI:
  "(\<And>s s'. I s \<Longrightarrow> body s = (Continue, s') \<Longrightarrow> I s') \<Longrightarrow>
   (\<And>s s'. I s \<Longrightarrow> body s = (Return, s') \<Longrightarrow> R s') \<Longrightarrow> keeps I R body"
  by (simp add: keeps_def)

lemma keeps_next: "keeps I R body \<Longrightarrow> I s \<Longrightarrow> body s = (Continue, s') \<Longrightarrow> I s'"
  by (simp add: keeps_def)

lemma keeps_return: "keeps I R body \<Longrightarrow> I s \<Longrightarrow> body s = (Return, s') \<Longrightarrow> R s'"
  by (simp add: keeps_def)

lemma scan_transition_keeps:
  assumes "\<And>out. keeps I R (scan_output q out)"
  shows "keeps I R (scan_transition q tr)"
proof (rule keepsI)
  have fe: "keeps I R (for_each (scan_output q) outs)" for outs
    by (rule for_each_keeps) (rule assms)
  fix s s' assume i: "I s"
  { assume "scan_transition q tr s = (Continue, s')"
    then show "I s'" using i keeps_next [OF fe]
      by (auto simp add: scan_transition_def split: if_splits option.splits) }
  { assume "scan_transition q tr s = (Return, s')"
    then show "R s'" using i keeps_return [OF fe]
      by (auto simp add: scan_transition_def split: if_splits option.splits) }
qed

lemma scan_transaction_keeps:
  assumes "\<And>out. keeps I R (scan_output q out)"
  shows "keeps I R (scan_transaction q ctx)"
proof (rule keepsI)
  have fe: "keeps I R (for_each (scan_transition q) trs)" for trs
    by (rule for_each_keeps) (rule scan_transition_keeps, rule assms)
  fix s s' assume i: "I s"
  { assume "scan_transaction q ctx s = (Continue, s')"
    then show "I s'" using i keeps_next [OF fe]
      by (auto simp add: scan_transaction_def split: if_splits option.splits) }
  { assume "scan_transaction q ctx s = (Return, s')"
    then show "R s'" using i keeps_return [OF fe]
      by (auto simp add: scan_transaction_def split: if_splits option.splits) }
qed

lemma scan_block_keeps:
  assumes "\<And>out. keeps I R (scan_output q out)"
  shows "keeps I R (scan_block q b)"
proof (rule keepsI)
  have fe: "keeps I R (for_each (scan_transaction q) txs)" for txs
    by (rule for_each_keeps) (rule scan_transaction_keeps, rule assms)
  fix s s' assume i: "I s"
  { assume "scan_block q b s = (Continue, s')"
    then show "I s'" using i keeps_next [OF fe]
      by (auto simp add: scan_block_def split: option.splits) }
  { assume "scan_block q b s = (Return, s')"
    then show "R s'" using i keeps_return [OF fe]
      by (auto simp add: scan_block_def split: option.splits) }
qed

lemma scan_loop_keeps_aux:
  "(\<forall>out. keeps I R (scan_output q out)) \<Longrightarrow>
   (\<forall>s. I s \<longrightarrow> I (s\<lparr>requests := Suc (requests s)\<rparr>)) \<Longrightarrow>
   (\<forall>s. I s \<longrightarrow> R s) \<Longrightarrow> I s \<Longrightarrow> R (scan_loop q startHeight end_h failures s)"
proof (induction q startHeight end_h failures s rule: scan_loop.induct)
  case (1 q startHeight end_h failures s)
  have out: "keeps I R (scan_output q out)" for out using "1.prems"(1) by simp
  have bump: "I s \<Longrightarrow> I (s\<lparr>requests := Suc (requests s)\<rparr>)" for s using "1.prems"(2) by simp
  have fin: "I s \<Longrightarrow> R s" for s using "1.prems"(3) by simp
  have blocks: "keeps I R (for_each (scan_block q) bs)" for bs
    by (rule for_each_keeps) (rule scan_block_keeps, rule out)
  have i: "I (s\<lparr>requests := Suc (requests s)\<rparr>)" using "1.prems"(4) bump by simp
  show ?case
  proof (cases "end_h > startHeight")
    case False
    then have "scan_loop q startHeight end_h failures s = s"
      by (subst scan_loop.simps) simp
    then show ?thesis using "1.prems"(4) fin by simp
  next
    case True
    show ?thesis
    proof (cases "getBlockRange (ledger q) (requests s) (chunk_start startHeight end_h) end_h")
      case None
      show ?thesis
      proof (cases "Suc failures > 10")
        case True
        with None \<open>end_h > startHeight\<close>
        have "scan_loop q startHeight end_h failures s = s\<lparr>requests := Suc (requests s)\<rparr>"
          by (subst scan_loop.simps) simp
        then show ?thesis using i fin by simp
      next
        case False
        with None \<open>end_h > startHeight\<close>
        have "scan_loop q startHeight end_h failures s =
              scan_loop q startHeight end_h (Suc failures) (s\<lparr>requests := Suc (requests s)\<rparr>)"
          by (subst scan_loop.simps) simp
        moreover have "R (scan_loop q startHeight end_h (Suc failures) (s\<lparr>requests := Suc (requests s)\<rparr>))"
          using "1.IH"(1) [OF \<open>end_h > startHeight\<close> None False "1.prems"(1-3) i] .
        ultimately show ?thesis by simp
      qed
    next
      case (Some bs)
      obtain c s' where r: "for_each (scan_block q) bs (s\<lparr>requests := Suc (requests s)\<rparr>) = (c, s')"
        by (cases "for_each (scan_block q) bs (s\<lparr>requests := Suc (requests s)\<rparr>)")
      show ?thesis
      proof (cases c)
        case Continue
        have "I s'" using keeps_next [OF blocks i] r Continue by simp
        moreover have "scan_loop q startHeight end_h failures s =
              scan_loop q startHeight (chunk_start startHeight end_h) failures s'"
          using Some True r Continue by (subst scan_loop.simps) simp
        moreover have "R (scan_loop q startHeight (chunk_start startHeight end_h) failures s')"
          using "1.IH"(2) [OF True Some _ _ "1.prems"(1-3) \<open>I s'\<close>] r Continue by simp
        ultimately show ?thesis by simp
      next
        case Return
        have "R s'" using keeps_return [OF blocks i] r Return by simp
        moreover have "scan_loop q startHeight end_h failures s = s'"
          using Some True r Return by (subst scan_loop.simps) simp
        ultimately show ?thesis by simp
      qed
    qed
  qed
qed

lemma scan_loop_keeps:
  assumes "\<And>out. keeps I R (scan_output q out)"
    and "\<And>s. I s \<Longrightarrow> I (s\<lparr>requests := Suc (requests s)\<rparr>)"
    and "\<And>s. I s \<Longrightarrow> R s"
    and "I s"
  shows "R (scan_loop q startHeight end_h failures s)"
  by (rule scan_loop_keeps_aux) (use assms in blast)+

section \<open>Properties of findUnspentRecords\<close>

lemma on_unspent_effect:
  "on_unspent q r s = (c, s') \<Longrightarrow>
     requests s' = requests s \<and> (records s' = records s \<or> records s' = records s @ [r])"
  by (auto simp: on_unspent_def Let_def split: option.splits if_splits)

lemma scan_output_effect:
  assumes "scan_output q out s = (c, s')"
  shows "requests s \<le> requests s' \<and>
     (records s' = records s \<or>
      (\<exists>r sn. records s' = records s @ [r] \<and> nonce r \<notin> set (nonces q) \<and>
         serialNumberString (crypto q) r (resolvedPrivateKey q) ''credits.aleo'' ''credits'' = Some sn \<and>
         getTransitionId (ledger q) (requests s) sn = None))"
  using assms
  by (auto simp: scan_output_def split: option.splits if_splits dest!: on_unspent_effect)

lemma scan_output_unspent: "keeps (unspent_at q t) (unspent_at q t) (scan_output q out)"
proof (rule keepsI)
  fix s s' assume i: "unspent_at q t s"
  have step: "unspent_at q t s'" if "scan_output q out s = (c, s')" for c
    using scan_output_effect [OF that] i unfolding unspent_at_def by fastforce
  { assume "scan_output q out s = (Continue, s')" then show "unspent_at q t s'" by (rule step) }
  { assume "scan_output q out s = (Return, s')" then show "unspent_at q t s'" by (rule step) }
qed

lemma scan_loop_unspent:
  "unspent_at q t s \<Longrightarrow> unspent_at q t (scan_loop q startHeight end_h failures s)"
  by (rule scan_loop_keeps [where I = "unspent_at q t"])
     (simp_all add: scan_output_unspent, simp add: unspent_at_def)

lemma findUnspentRecords_Inr:
  assumes "findUnspentRecords c t startHeight endHeight privateKey amts maxM excluded = Inr rs"
  obtains key latestHeight where
    "resolve_private_key c privateKey = Inr key"
    "getLatestHeight (network c) t = Some latestHeight"
    "0 \<le> startHeight" "startHeight \<le> resolve_end endHeight latestHeight"
    "rs = records (scan_loop
            \<lparr>ledger = network c, crypto = engine c, resolvedPrivateKey = key,
             viewKey = to_view_key (engine c) key, amounts = amts,
             maxMicrocredits = maxM, nonces = (case excluded of None \<Rightarrow> [] | Some l \<Rightarrow> l)\<rparr>
            startHeight (resolve_end endHeight latestHeight) 0
            \<lparr>records = [], totalRecordValue = 0, requests = Suc t\<rparr>)"
  using assms
  by (auto simp: findUnspentRecords_def Let_def split: if_splits sum.splits option.splits)

text \<open>
  Claim C1. A record is pushed onto the result only inside the \<open>catch\<close> of the
  \<open>getTransitionId\<close> lookup of its serial number. So for every successful call, each
  returned record has a serial number (derived with the resolved private key) whose lookup
  failed at one of the requests of this call: a record whose lookup always succeeds, that
  is, a record the ledger reports spent, is never returned.
\<close>

theorem findUnspentRecords_only_unspent:
  assumes "findUnspentRecords c t startHeight endHeight privateKey amts maxM excluded = Inr rs"
    and "r \<in> set rs"
  shows "\<exists>key sn n. resolve_private_key c privateKey = Inr key \<and>
           serialNumberString (engine c) r key ''credits.aleo'' ''credits'' = Some sn \<and>
           t < n \<and> getTransitionId (network c) n sn = None"
proof -
  from assms(1) obtain key latestHeight q where
    k: "resolve_private_key c privateKey = Inr key"
    and q: "q = \<lparr>ledger = network c, crypto = engine c, resolvedPrivateKey = key,
             viewKey = to_view_key (engine c) key, amounts = amts,
             maxMicrocredits = maxM, nonces = (case excluded of None \<Rightarrow> [] | Some l \<Rightarrow> l)\<rparr>"
    and rs: "rs = records (scan_loop q startHeight (resolve_end endHeight latestHeight) 0
                     \<lparr>records = [], totalRecordValue = 0, requests = Suc t\<rparr>)"
    by (blast elim: findUnspentRecords_Inr)
  have "unspent_at q t \<lparr>records = [], totalRecordValue = 0, requests = Suc t\<rparr>"
    by (simp add: unspent_at_def)
  then have "unspent_at q t (scan_loop q startHeight (resolve_end endHeight latestHeight) 0
                     \<lparr>records = [], totalRecordValue = 0, requests = Suc t\<rparr>)"
    by (rule scan_loop_unspent)
  then have "\<forall>r \<in> set rs. \<exists>sn n. t < n \<and>
      serialNumberString (engine c) r key ''credits.aleo'' ''credits'' = Some sn \<and>
      getTransitionId (network c) n sn = None"
    unfolding unspent_at_def rs by (simp add: q)
  with assms(2) k show ?thesis by blast
qed

theorem findUnspentRecords_only_unspent_witness:
  "findUnspentRecords example_client 0 0 None None None None None =
     Inr [\<lparr>nonce = ''aaa'', microcredits = 150\<rparr>, \<lparr>nonce = ''bbb'', microcredits = 150\<rparr>,
          \<lparr>nonce = ''cccc'', microcredits = 200\<rparr>] \<and>
   (\<exists>key sn n. resolve_private_key example_client None = Inr key \<and>
      serialNumberString (engine example_client) \<lparr>nonce = ''bbb'', microcredits = 150\<rparr> key
        ''credits.aleo'' ''credits'' = Some sn \<and>
      0 < n \<and> getTransitionId (network example_client) n sn = None)"
proof -
  have call: "findUnspentRecords example_client 0 0 None None None None None =
     Inr [\<lparr>nonce = ''aaa'', microcredits = 150\<rparr>, \<lparr>nonce = ''bbb'', microcredits = 150\<rparr>,
          \<lparr>nonce = ''cccc'', microcredits = 200\<rparr>]"
    by code_simp
  have mem: "\<lparr>nonce = ''bbb'', microcredits = 150\<rparr> \<in>
     set [\<lparr>nonce = ''aaa'', microcredits = 150\<rparr>, \<lparr>nonce = ''bbb'', microcredits = 150\<rparr>,
          \<lparr>nonce = ''cccc'', microcredits = 200\<rparr>]"
    by simp
  from findUnspentRecords_only_unspent [OF call mem] call show ?thesis
    by blast
qed

lemma scan_output_not_excluded: "keeps (not_excluded q) (not_excluded q) (scan_output q out)"
proof (rule keepsI)
  fix s s' assume i: "not_excluded q s"
  have step: "not_excluded q s'" if "scan_output q out s = (c, s')" for c
  proof -
    from scan_output_effect [OF that] consider
      (same) "records s' = records s"
      | (push) r where "records s' = records s @ [r]" "nonce r \<notin> set (nonces q)"
      by blast
    then show ?thesis
    proof cases
      case same
      with i show ?thesis by (simp add: not_excluded_def)
    next
      case push
      with i show ?thesis by (simp add: not_excluded_def)
    qed
  qed
  { assume "scan_output q out s = (Continue, s')" then show "not_excluded q s'" by (rule step) }
  { assume "scan_output q out s = (Return, s')" then show "not_excluded q s'" by (rule step) }
qed

lemma scan_loop_not_excluded:
  "not_excluded q s \<Longrightarrow> not_excluded q (scan_loop q startHeight end_h failures s)"
  by (rule scan_loop_keeps [where I = "not_excluded q"])
     (simp_all add: scan_output_not_excluded, simp add: not_excluded_def)

lemma findUnspentRecords_nonces:
  assumes "findUnspentRecords c t startHeight endHeight privateKey amts maxM excluded = Inr rs"
    and "r \<in> set rs"
  shows "nonce r \<notin> set (case excluded of None \<Rightarrow> [] | Some l \<Rightarrow> l)"
proof -
  from assms(1) obtain key latestHeight q where
    q: "q = \<lparr>ledger = network c, crypto = engine c, resolvedPrivateKey = key,
             viewKey = to_view_key (engine c) key, amounts = amts,
             maxMicrocredits = maxM, nonces = (case excluded of None \<Rightarrow> [] | Some l \<Rightarrow> l)\<rparr>"
    and rs: "rs = records (scan_loop q startHeight (resolve_end endHeight latestHeight) 0
                     \<lparr>records = [], totalRecordValue = 0, requests = Suc t\<rparr>)"
    by (blast elim: findUnspentRecords_Inr)
  have "not_excluded q \<lparr>records = [], totalRecordValue = 0, requests = Suc t\<rparr>"
    by (simp add: not_excluded_def)
  then have "not_excluded q (scan_loop q startHeight (resolve_end endHeight latestHeight) 0
                     \<lparr>records = [], totalRecordValue = 0, requests = Suc t\<rparr>)"
    by (rule scan_loop_not_excluded)
  then have "\<forall>r \<in> set rs. nonce r \<notin> set (case excluded of None \<Rightarrow> [] | Some l \<Rightarrow> l)"
    unfolding not_excluded_def rs by (simp add: q)
  with assms(2) show ?thesis by blast
qed

text \<open>
  Claim C6. No returned record has a nonce of the caller's exclusion list (an absent list
  is the empty one). Hence a second call over the same range whose exclusion list holds
  every nonce returned by the first call returns no record with a nonce of the first
  result, whatever the ledger answers in between.
\<close>

theorem findUnspentRecords_excludes_nonces:
  assumes "findUnspentRecords c t startHeight endHeight privateKey amts maxM excluded = Inr rs"
  shows "(\<forall>r \<in> set rs. nonce r \<notin> set (case excluded of None \<Rightarrow> [] | Some l \<Rightarrow> l)) \<and>
         (\<forall>c' t' privateKey' amts' maxM' excluded' rs'.
            findUnspentRecords c' t' startHeight endHeight privateKey' amts' maxM' (Some excluded') = Inr rs'
              \<and> nonce ` set rs \<subseteq> set excluded'
            \<longrightarrow> nonce ` set rs \<inter> nonce ` set rs' = {})"
proof (intro conjI allI impI ballI)
  fix r assume "r \<in> set rs"
  with assms show "nonce r \<notin> set (case excluded of None \<Rightarrow> [] | Some l \<Rightarrow> l)"
    by (rule findUnspentRecords_nonces)
next
  fix c' t' privateKey' amts' maxM' excluded' rs'
  assume h: "findUnspentRecords c' t' startHeight endHeight privateKey' amts' maxM' (Some excluded') = Inr rs'
              \<and> nonce ` set rs \<subseteq> set excluded'"
  from h have call': "findUnspentRecords c' t' startHeight endHeight privateKey' amts' maxM'
      (Some excluded') = Inr rs'"
    by (rule conjunct1)
  from h have sub: "nonce ` set rs \<subseteq> set excluded'"
    by (rule conjunct2)
  have fresh: "nonce r' \<notin> set excluded'" if "r' \<in> set rs'" for r'
    using findUnspentRecords_nonces [OF call' that] by simp
  show "nonce ` set rs \<inter> nonce ` set rs' = {}"
  proof (rule equals0I)
    fix x assume x: "x \<in> nonce ` set rs \<inter> nonce ` set rs'"
    then obtain r' where r': "r' \<in> set rs'" "x = nonce r'" by auto
    from x sub have "x \<in> set excluded'" by auto
    with r' fresh [of r'] show False by simp
  qed
qed

theorem findUnspentRecords_excludes_nonces_witness:
  "findUnspentRecords example_client 0 0 None None (Some [100]) None None =
     Inr [\<lparr>nonce = ''aaa'', microcredits = 150\<rparr>] \<and>
   findUnspentRecords example_client 7 0 None None (Some [100]) None (Some [''aaa'']) =
     Inr [\<lparr>nonce = ''bbb'', microcredits = 150\<rparr>] \<and>
   nonce \<lparr>nonce = ''bbb'', microcredits = (150::nat)\<rparr> \<notin> set [''aaa''] \<and>
   nonce ` set [\<lparr>nonce = ''aaa'', microcredits = 150\<rparr>] \<inter>
     nonce ` set [\<lparr>nonce = ''bbb'', microcredits = (150::nat)\<rparr>] = {}"
proof -
  have first: "findUnspentRecords example_client 0 0 None None (Some [100]) None None =
     Inr [\<lparr>nonce = ''aaa'', microcredits = 150\<rparr>]"
    by code_simp
  have second: "findUnspentRecords example_client 7 0 None None (Some [100]) None (Some [''aaa'']) =
     Inr [\<lparr>nonce = ''bbb'', microcredits = 150\<rparr>]"
    by code_simp
  have sub: "nonce ` set [\<lparr>nonce = ''aaa'', microcredits = (150::nat)\<rparr>] \<subseteq> set [''aaa'']"
    by simp
  note both = findUnspentRecords_excludes_nonces [OF first]
  note disjoint = both [THEN conjunct2, rule_format, OF conjI [OF second sub]]
  note fresh = findUnspentRecords_excludes_nonces [OF second, THEN conjunct1]
  from first second fresh disjoint show ?thesis
    by simp
qed

lemma below_budget_requests [simp]:
  "below_budget m (s\<lparr>requests := n\<rparr>) = below_budget m s"
  by (simp add: below_budget_def)



























lemma tracks_request [simp]:
  "tracks m (s\<lparr>requests := n\<rparr>) (s'\<lparr>requests := n\<rparr>) = (records s' = records s \<and> below_budget m s)"
  by (simp add: tracks_def)











lemma scan_loop_failure_below_limit:
  assumes "startHeight < end_h"
    and "getBlockRange (ledger q) (requests s) (chunk_start startHeight end_h) end_h = None"
    and "failures < 10"
  shows "scan_loop q startHeight end_h failures s =
         scan_loop q startHeight end_h (Suc failures) (s\<lparr>requests := Suc (requests s)\<rparr>)"
  using assms by (subst scan_loop.simps) simp

lemma scan_loop_failure_at_limit:
  assumes "startHeight < end_h"
    and "getBlockRange (ledger q) (requests s) (chunk_start startHeight end_h) end_h = None"
    and "10 \<le> failures"
  shows "scan_loop q startHeight end_h failures s = s\<lparr>requests := Suc (requests s)\<rparr>"
  using assms by (subst scan_loop.simps) simp

lemma scan_loop_abort:
  assumes "startHeight < end_h"
  shows "failures \<le> 10 \<Longrightarrow>
     \<forall>i < 11 - failures.
        getBlockRange (ledger q) (requests s + i) (chunk_start startHeight end_h) end_h = None \<Longrightarrow>
     records (scan_loop q startHeight end_h failures s) = records s"
proof (induction "10 - failures" arbitrary: failures s)
  case 0
  then have "10 \<le> failures" by simp
  moreover from "0.prems" have
    "getBlockRange (ledger q) (requests s) (chunk_start startHeight end_h) end_h = None"
    by (auto dest: spec [of _ 0])
  ultimately show ?case
    using scan_loop_failure_at_limit [OF assms] by simp
next
  case (Suc n)
  then have lt: "failures < 10" by simp
  from Suc.prems have now:
    "getBlockRange (ledger q) (requests s) (chunk_start startHeight end_h) end_h = None"
    by (auto dest: spec [of _ 0])
  have later: "\<forall>i < 11 - Suc failures.
      getBlockRange (ledger q) (requests (s\<lparr>requests := Suc (requests s)\<rparr>) + i)
        (chunk_start startHeight end_h) end_h = None"
  proof (intro allI impI)
    fix i assume "i < 11 - Suc failures"
    then have "Suc i < 11 - failures" by simp
    with Suc.prems(2) have
      "getBlockRange (ledger q) (requests s + Suc i) (chunk_start startHeight end_h) end_h = None"
      by blast
    then show "getBlockRange (ledger q) (requests (s\<lparr>requests := Suc (requests s)\<rparr>) + i)
        (chunk_start startHeight end_h) end_h = None"
      by simp
  qed
  have "n = 10 - Suc failures" using Suc.hyps(2) by simp
  from Suc.hyps(1) [OF this _ later] lt
  have "records (scan_loop q startHeight end_h (Suc failures) (s\<lparr>requests := Suc (requests s)\<rparr>))
        = records s"
    by simp
  with scan_loop_failure_below_limit [OF assms now lt] show ?case by simp
qed

lemma scan_loop_retries:
  assumes "startHeight < end_h"
  shows "failures + k \<le> 10 \<Longrightarrow>
     \<forall>i < k. getBlockRange (ledger q) (requests s + i) (chunk_start startHeight end_h) end_h = None \<Longrightarrow>
     scan_loop q startHeight end_h failures s =
     scan_loop q startHeight end_h (failures + k) (s\<lparr>requests := requests s + k\<rparr>)"
proof (induction k arbitrary: failures s)
  case 0
  then show ?case by simp
next
  case (Suc k)
  from Suc.prems have lt: "failures < 10" by simp
  from Suc.prems(2) have now:
    "getBlockRange (ledger q) (requests s) (chunk_start startHeight end_h) end_h = None"
    by (auto dest: spec [of _ 0])
  have later: "\<forall>i < k.
      getBlockRange (ledger q) (requests (s\<lparr>requests := Suc (requests s)\<rparr>) + i)
        (chunk_start startHeight end_h) end_h = None"
  proof (intro allI impI)
    fix i assume "i < k"
    then have "Suc i < Suc k" by simp
    with Suc.prems(2) have
      "getBlockRange (ledger q) (requests s + Suc i) (chunk_start startHeight end_h) end_h = None"
      by blast
    then show "getBlockRange (ledger q) (requests (s\<lparr>requests := Suc (requests s)\<rparr>) + i)
        (chunk_start startHeight end_h) end_h = None"
      by simp
  qed
  from Suc.prems(1) have "Suc failures + k \<le> 10" by simp
  from Suc.IH [OF this later]
  have "scan_loop q startHeight end_h (Suc failures) (s\<lparr>requests := Suc (requests s)\<rparr>) =
        scan_loop q startHeight end_h (failures + Suc k) (s\<lparr>requests := requests s + Suc k\<rparr>)"
    by simp
  with scan_loop_failure_below_limit [OF assms now lt] show ?case by simp
qed

lemma scan_loop_fetched:
  assumes "startHeight < end_h"
    and "getBlockRange (ledger q) (requests s) (chunk_start startHeight end_h) end_h = Some blocks"
    and "for_each (scan_block q) blocks (s\<lparr>requests := Suc (requests s)\<rparr>) = (Continue, s')"
  shows "scan_loop q startHeight end_h failures s =
         scan_loop q startHeight (chunk_start startHeight end_h) failures s'"
  using assms by (subst scan_loop.simps) simp

lemma scan_loop_retries_then_abort:
  assumes range: "startHeight < end_h"
    and k: "k \<le> 10"
    and first: "\<forall>i < k. getBlockRange (ledger q) (requests s + i)
                  (chunk_start startHeight end_h) end_h = None"
    and fetch: "getBlockRange (ledger q) (requests s + k)
                  (chunk_start startHeight end_h) end_h = Some blocks"
    and scan: "for_each (scan_block q) blocks (s\<lparr>requests := Suc (requests s + k)\<rparr>) = (Continue, s1)"
    and more: "startHeight < chunk_start startHeight end_h"
    and last: "\<forall>i < 11 - k. getBlockRange (ledger q) (requests s1 + i)
                  (chunk_start startHeight (chunk_start startHeight end_h))
                  (chunk_start startHeight end_h) = None"
  shows "records (scan_loop q startHeight end_h 0 s) = records s1"
proof -
  from k first have "scan_loop q startHeight end_h 0 s =
      scan_loop q startHeight end_h (0 + k) (s\<lparr>requests := requests s + k\<rparr>)"
    by (intro scan_loop_retries [OF range]) simp_all
  also have "\<dots> = scan_loop q startHeight (chunk_start startHeight end_h) (0 + k) s1"
    using fetch scan by (intro scan_loop_fetched [OF range]) simp_all
  finally have "scan_loop q startHeight end_h 0 s =
      scan_loop q startHeight (chunk_start startHeight end_h) k s1"
    by simp
  moreover have "records (scan_loop q startHeight (chunk_start startHeight end_h) k s1) = records s1"
    by (rule scan_loop_abort [OF more k last])
  ultimately show ?thesis by simp
qed

text \<open>
  Claim C3. A block-range request that throws leaves the range as it was and adds one to
  \<open>failures\<close>; below eleven failures the loop tries again, and a request that succeeds
  leaves the counter as it is (it counts all failures of the call). The failure that makes the
  counter exceed 10 ends the scan with the records found so far, and the call returns
  them as its result. A call with valid arguments returns the records of its scan. When
  \<open>k\<close> requests for the first range fail, the next one succeeds and leaves the scan in
  the state \<open>s1\<close>, and the next \<open>11 - k\<close> requests fail, the call returns the records of
  \<open>s1\<close>; when the first eleven requests for blocks all fail it returns the empty list.
\<close>

theorem findUnspentRecords_fetch_failures:
  "(startHeight < end_h \<and> failures < 10 \<and>
    getBlockRange (ledger q) (requests s) (chunk_start startHeight end_h) end_h = None \<longrightarrow>
      scan_loop q startHeight end_h failures s =
      scan_loop q startHeight end_h (Suc failures) (s\<lparr>requests := Suc (requests s)\<rparr>)) \<and>
   (startHeight < end_h \<and>
    getBlockRange (ledger q) (requests s) (chunk_start startHeight end_h) end_h = Some blocks \<and>
    for_each (scan_block q) blocks (s\<lparr>requests := Suc (requests s)\<rparr>) = (Continue, s') \<longrightarrow>
      scan_loop q startHeight end_h failures s =
      scan_loop q startHeight (chunk_start startHeight end_h) failures s') \<and>
   (startHeight < end_h \<and> failures \<le> 10 \<and>
    (\<forall>i < 11 - failures.
       getBlockRange (ledger q) (requests s + i) (chunk_start startHeight end_h) end_h = None) \<longrightarrow>
      records (scan_loop q startHeight end_h failures s) = records s) \<and>
   (0 \<le> startHeight \<and> resolve_private_key c privateKey = Inr key \<and>
    getLatestHeight (network c) t = Some latestHeight \<and>
    startHeight \<le> resolve_end endHeight latestHeight \<longrightarrow>
      findUnspentRecords c t startHeight endHeight privateKey amts maxM excluded =
        Inr (records
          (scan_loop
             \<lparr>ledger = network c, crypto = engine c, resolvedPrivateKey = key,
              viewKey = to_view_key (engine c) key, amounts = amts, maxMicrocredits = maxM,
              nonces = (case excluded of None \<Rightarrow> [] | Some l \<Rightarrow> l)\<rparr>
             startHeight (resolve_end endHeight latestHeight) 0
             \<lparr>records = [], totalRecordValue = 0, requests = Suc t\<rparr>))) \<and>
   (0 \<le> startHeight \<and> resolve_private_key c privateKey = Inr key \<and>
    getLatestHeight (network c) t = Some latestHeight \<and>
    startHeight < resolve_end endHeight latestHeight \<and> k \<le> 10 \<and>
    (\<forall>i < k. getBlockRange (network c) (Suc t + i)
       (chunk_start startHeight (resolve_end endHeight latestHeight))
       (resolve_end endHeight latestHeight) = None) \<and>
    getBlockRange (network c) (Suc t + k)
       (chunk_start startHeight (resolve_end endHeight latestHeight))
       (resolve_end endHeight latestHeight) = Some fetched \<and>
    for_each
      (scan_block
         \<lparr>ledger = network c, crypto = engine c, resolvedPrivateKey = key,
          viewKey = to_view_key (engine c) key, amounts = amts, maxMicrocredits = maxM,
          nonces = (case excluded of None \<Rightarrow> [] | Some l \<Rightarrow> l)\<rparr>)
      fetched \<lparr>records = [], totalRecordValue = 0, requests = Suc (Suc t + k)\<rparr> = (Continue, s1) \<and>
    startHeight < chunk_start startHeight (resolve_end endHeight latestHeight) \<and>
    (\<forall>i < 11 - k. getBlockRange (network c) (requests s1 + i)
       (chunk_start startHeight (chunk_start startHeight (resolve_end endHeight latestHeight)))
       (chunk_start startHeight (resolve_end endHeight latestHeight)) = None) \<longrightarrow>
      findUnspentRecords c t startHeight endHeight privateKey amts maxM excluded =
        Inr (records s1)) \<and>
   (0 \<le> startHeight \<and> resolve_private_key c privateKey = Inr key \<and>
    getLatestHeight (network c) t = Some latestHeight \<and>
    startHeight < resolve_end endHeight latestHeight \<and>
    (\<forall>i < 11. \<forall>a b. getBlockRange (network c) (Suc t + i) a b = None) \<longrightarrow>
      findUnspentRecords c t startHeight endHeight privateKey amts maxM excluded = Inr [])"
proof (intro conjI impI)
  assume "startHeight < end_h \<and> failures < 10 \<and>
    getBlockRange (ledger q) (requests s) (chunk_start startHeight end_h) end_h = None"
  then show "scan_loop q startHeight end_h failures s =
      scan_loop q startHeight end_h (Suc failures) (s\<lparr>requests := Suc (requests s)\<rparr>)"
    by (simp add: scan_loop_failure_below_limit)
next
  assume "startHeight < end_h \<and>
    getBlockRange (ledger q) (requests s) (chunk_start startHeight end_h) end_h = Some blocks \<and>
    for_each (scan_block q) blocks (s\<lparr>requests := Suc (requests s)\<rparr>) = (Continue, s')"
  then show "scan_loop q startHeight end_h failures s =
      scan_loop q startHeight (chunk_start startHeight end_h) failures s'"
    by (simp add: scan_loop_fetched)
next
  assume "startHeight < end_h \<and> failures \<le> 10 \<and>
    (\<forall>i < 11 - failures.
       getBlockRange (ledger q) (requests s + i) (chunk_start startHeight end_h) end_h = None)"
  then show "records (scan_loop q startHeight end_h failures s) = records s"
    using scan_loop_abort [of startHeight end_h failures q s] by blast
next
  assume "0 \<le> startHeight \<and> resolve_private_key c privateKey = Inr key \<and>
    getLatestHeight (network c) t = Some latestHeight \<and>
    startHeight \<le> resolve_end endHeight latestHeight"
  then show "findUnspentRecords c t startHeight endHeight privateKey amts maxM excluded =
        Inr (records
          (scan_loop
             \<lparr>ledger = network c, crypto = engine c, resolvedPrivateKey = key,
              viewKey = to_view_key (engine c) key, amounts = amts, maxMicrocredits = maxM,
              nonces = (case excluded of None \<Rightarrow> [] | Some l \<Rightarrow> l)\<rparr>
             startHeight (resolve_end endHeight latestHeight) 0
             \<lparr>records = [], totalRecordValue = 0, requests = Suc t\<rparr>))"
    by (simp add: findUnspentRecords_def Let_def)
next
  define q0 where "q0 = \<lparr>ledger = network c, crypto = engine c, resolvedPrivateKey = key,
      viewKey = to_view_key (engine c) key, amounts = amts, maxMicrocredits = maxM,
      nonces = (case excluded of None \<Rightarrow> [] | Some l \<Rightarrow> l)\<rparr>"
  define s0 :: scan_state where "s0 = \<lparr>records = [], totalRecordValue = 0, requests = Suc t\<rparr>"
  define e0 where "e0 = resolve_end endHeight latestHeight"
  assume h: "0 \<le> startHeight \<and> resolve_private_key c privateKey = Inr key \<and>
    getLatestHeight (network c) t = Some latestHeight \<and>
    startHeight < resolve_end endHeight latestHeight \<and> k \<le> 10 \<and>
    (\<forall>i < k. getBlockRange (network c) (Suc t + i)
       (chunk_start startHeight (resolve_end endHeight latestHeight))
       (resolve_end endHeight latestHeight) = None) \<and>
    getBlockRange (network c) (Suc t + k)
       (chunk_start startHeight (resolve_end endHeight latestHeight))
       (resolve_end endHeight latestHeight) = Some fetched \<and>
    for_each
      (scan_block
         \<lparr>ledger = network c, crypto = engine c, resolvedPrivateKey = key,
          viewKey = to_view_key (engine c) key, amounts = amts, maxMicrocredits = maxM,
          nonces = (case excluded of None \<Rightarrow> [] | Some l \<Rightarrow> l)\<rparr>)
      fetched \<lparr>records = [], totalRecordValue = 0, requests = Suc (Suc t + k)\<rparr> = (Continue, s1) \<and>
    startHeight < chunk_start startHeight (resolve_end endHeight latestHeight) \<and>
    (\<forall>i < 11 - k. getBlockRange (network c) (requests s1 + i)
       (chunk_start startHeight (chunk_start startHeight (resolve_end endHeight latestHeight)))
       (chunk_start startHeight (resolve_end endHeight latestHeight)) = None)"
  then have range: "startHeight < e0" and k: "k \<le> 10"
    and more: "startHeight < chunk_start startHeight e0"
    by (simp_all add: e0_def)
  from h have first: "\<forall>i < k. getBlockRange (ledger q0) (requests s0 + i)
       (chunk_start startHeight e0) e0 = None"
    by (simp add: q0_def s0_def e0_def)
  from h have fetch: "getBlockRange (ledger q0) (requests s0 + k)
       (chunk_start startHeight e0) e0 = Some fetched"
    by (simp add: q0_def s0_def e0_def)
  from h have scan: "for_each (scan_block q0) fetched (s0\<lparr>requests := Suc (requests s0 + k)\<rparr>)
       = (Continue, s1)"
    by (simp add: q0_def s0_def)
  from h have last: "\<forall>i < 11 - k. getBlockRange (ledger q0) (requests s1 + i)
       (chunk_start startHeight (chunk_start startHeight e0)) (chunk_start startHeight e0) = None"
    by (simp add: q0_def e0_def)
  have "records (scan_loop q0 startHeight e0 0 s0) = records s1"
    by (rule scan_loop_retries_then_abort [OF range k first fetch scan more last])
  with h show "findUnspentRecords c t startHeight endHeight privateKey amts maxM excluded =
        Inr (records s1)"
    by (simp add: findUnspentRecords_def Let_def q0_def s0_def e0_def)
next
  assume h: "0 \<le> startHeight \<and> resolve_private_key c privateKey = Inr key \<and>
    getLatestHeight (network c) t = Some latestHeight \<and>
    startHeight < resolve_end endHeight latestHeight \<and>
    (\<forall>i < 11. \<forall>a b. getBlockRange (network c) (Suc t + i) a b = None)"
  define q0 where "q0 = \<lparr>ledger = network c, crypto = engine c, resolvedPrivateKey = key,
      viewKey = to_view_key (engine c) key, amounts = amts, maxMicrocredits = maxM,
      nonces = (case excluded of None \<Rightarrow> [] | Some l \<Rightarrow> l)\<rparr>"
  define s0 :: scan_state where "s0 = \<lparr>records = [], totalRecordValue = 0, requests = Suc t\<rparr>"
  have fails: "\<forall>i < 11 - 0.
      getBlockRange (ledger q0) (requests s0 + i)
        (chunk_start startHeight (resolve_end endHeight latestHeight))
        (resolve_end endHeight latestHeight) = None"
    using h by (simp add: q0_def s0_def)
  from h have lt: "startHeight < resolve_end endHeight latestHeight" by simp
  have "records (scan_loop q0 startHeight (resolve_end endHeight latestHeight) 0 s0) = records s0"
    by (rule scan_loop_abort [OF lt _ fails]) simp
  then have "records (scan_loop q0 startHeight (resolve_end endHeight latestHeight) 0 s0) = []"
    by (simp add: s0_def)
  with h show "findUnspentRecords c t startHeight endHeight privateKey amts maxM excluded = Inr []"
    by (simp add: findUnspentRecords_def Let_def q0_def s0_def)
qed

theorem findUnspentRecords_fetch_failures_witness:
  "scan_loop example_search 0 10 0
      \<lparr>records = [\<lparr>nonce = ''aaa'', microcredits = 150\<rparr>], totalRecordValue = 150, requests = 3\<rparr> =
   scan_loop example_search 0 10 1
      \<lparr>records = [\<lparr>nonce = ''aaa'', microcredits = 150\<rparr>], totalRecordValue = 150, requests = 4\<rparr> \<and>
   scan_loop (example_search\<lparr>maxMicrocredits := None\<rparr>) 0 60 2
      \<lparr>records = [], totalRecordValue = 0, requests = 1\<rparr> =
   scan_loop (example_search\<lparr>maxMicrocredits := None\<rparr>) 0 (chunk_start 0 60) 2
      \<lparr>records = [\<lparr>nonce = ''aaa'', microcredits = 150\<rparr>,
                  \<lparr>nonce = ''bbb'', microcredits = 150\<rparr>,
                  \<lparr>nonce = ''cccc'', microcredits = 200\<rparr>],
       totalRecordValue = 0, requests = 6\<rparr> \<and>
   records (scan_loop example_search 0 10 0
      \<lparr>records = [\<lparr>nonce = ''aaa'', microcredits = 150\<rparr>], totalRecordValue = 150, requests = 3\<rparr>) =
     [\<lparr>nonce = ''aaa'', microcredits = 150\<rparr>] \<and>
   findUnspentRecords example_client 0 0 None None None None None =
     Inr (records (scan_loop (example_search\<lparr>maxMicrocredits := None\<rparr>) 0 60 0
            \<lparr>records = [], totalRecordValue = 0, requests = 1\<rparr>)) \<and>
   findUnspentRecords example_client 0 0 None None None None None =
     Inr [\<lparr>nonce = ''aaa'', microcredits = 150\<rparr>, \<lparr>nonce = ''bbb'', microcredits = 150\<rparr>,
          \<lparr>nonce = ''cccc'', microcredits = 200\<rparr>] \<and>
   findUnspentRecords flaky_client 0 0 None None None None None =
     Inr [\<lparr>nonce = ''aaa'', microcredits = 150\<rparr>, \<lparr>nonce = ''bbb'', microcredits = 150\<rparr>,
          \<lparr>nonce = ''cccc'', microcredits = 200\<rparr>] \<and>
   findUnspentRecords unreachable_client 0 0 None None None None None = Inr []"
proof -
  let ?s = "\<lparr>records = [\<lparr>nonce = ''aaa'', microcredits = 150\<rparr>], totalRecordValue = 150,
             requests = 3\<rparr>"
  let ?found = "[\<lparr>nonce = ''aaa'', microcredits = 150\<rparr>, \<lparr>nonce = ''bbb'', microcredits = 150\<rparr>,
                 \<lparr>nonce = ''cccc'', microcredits = 200\<rparr>]"
  let ?q = "\<lparr>ledger = network example_client, crypto = engine example_client,
             resolvedPrivateKey = PrivateKey ''k'',
             viewKey = to_view_key (engine example_client) (PrivateKey ''k''),
             amounts = None, maxMicrocredits = None,
             nonces = (case None of None \<Rightarrow> [] | Some l \<Rightarrow> l)\<rparr>"
  let ?qf = "\<lparr>ledger = network flaky_client, crypto = engine flaky_client,
             resolvedPrivateKey = PrivateKey ''k'',
             viewKey = to_view_key (engine flaky_client) (PrivateKey ''k''),
             amounts = None, maxMicrocredits = None,
             nonces = (case None of None \<Rightarrow> [] | Some l \<Rightarrow> l)\<rparr>"
  note f = findUnspentRecords_fetch_failures
  have one: "(0::int) < 10 \<and> (0::nat) < 10 \<and>
      getBlockRange (ledger example_search) (requests ?s) (chunk_start 0 10) 10 = None"
    by (simp add: example_search_def example_ledger_def)
  have all: "(0::int) < 10 \<and> (0::nat) \<le> 10 \<and>
      (\<forall>i < 11 - 0.
         getBlockRange (ledger example_search) (requests ?s + i) (chunk_start 0 10) 10 = None)"
    by (simp add: example_search_def example_ledger_def)
  have valid: "(0::int) \<le> 0 \<and> resolve_private_key example_client None = Inr (PrivateKey ''k'') \<and>
      getLatestHeight (network example_client) 0 = Some 60 \<and> (0::int) \<le> resolve_end None 60"
    by (simp add: example_client_def example_ledger_def resolve_private_key_def resolve_end_def)
  have down: "(0::int) \<le> 0 \<and> resolve_private_key unreachable_client None = Inr (PrivateKey ''k'') \<and>
      getLatestHeight (network unreachable_client) 0 = Some 60 \<and> (0::int) < resolve_end None 60 \<and>
      (\<forall>i < 11. \<forall>a b. getBlockRange (network unreachable_client) (Suc 0 + i) a b = None)"
    by (simp add: unreachable_client_def example_client_def example_ledger_def
        resolve_private_key_def resolve_end_def)
  have fetched: "(0::int) < 60 \<and>
      getBlockRange (ledger (example_search\<lparr>maxMicrocredits := None\<rparr>))
         (requests \<lparr>records = [], totalRecordValue = 0, requests = 1\<rparr>) (chunk_start 0 60) 60 =
        Some [example_block [''aaa'', ''spent'', ''xyz'', ''bbb'', ''cccc'']] \<and>
      for_each (scan_block (example_search\<lparr>maxMicrocredits := None\<rparr>))
        [example_block [''aaa'', ''spent'', ''xyz'', ''bbb'', ''cccc'']]
        (\<lparr>records = [], totalRecordValue = 0, requests = 1\<rparr>
           \<lparr>requests := Suc (requests \<lparr>records = [], totalRecordValue = 0, requests = 1\<rparr>)\<rparr>) =
        (Continue, \<lparr>records = ?found, totalRecordValue = 0, requests = 6\<rparr>)"
    by code_simp
  have scan: "for_each (scan_block ?q)
        [example_block [''aaa'', ''spent'', ''xyz'', ''bbb'', ''cccc'']]
        \<lparr>records = [], totalRecordValue = 0, requests = Suc (Suc 0 + 0)\<rparr> =
        (Continue, \<lparr>records = ?found, totalRecordValue = 0, requests = 6\<rparr>)"
    by code_simp
  have scan_flaky: "for_each (scan_block ?qf)
        [example_block [''aaa'', ''spent'', ''xyz'', ''bbb'', ''cccc'']]
        \<lparr>records = [], totalRecordValue = 0, requests = Suc (Suc 0 + 3)\<rparr> =
        (Continue, \<lparr>records = ?found, totalRecordValue = 0, requests = 9\<rparr>)"
    by code_simp
  have once: "(0::int) \<le> 0 \<and> resolve_private_key example_client None = Inr (PrivateKey ''k'') \<and>
      getLatestHeight (network example_client) 0 = Some 60 \<and> (0::int) < resolve_end None 60 \<and>
      (0::nat) \<le> 10 \<and>
      (\<forall>i < 0. getBlockRange (network example_client) (Suc 0 + i)
         (chunk_start 0 (resolve_end None 60)) (resolve_end None 60) = None) \<and>
      getBlockRange (network example_client) (Suc 0 + 0)
         (chunk_start 0 (resolve_end None 60)) (resolve_end None 60) =
        Some [example_block [''aaa'', ''spent'', ''xyz'', ''bbb'', ''cccc'']] \<and>
      for_each (scan_block ?q)
        [example_block [''aaa'', ''spent'', ''xyz'', ''bbb'', ''cccc'']]
        \<lparr>records = [], totalRecordValue = 0, requests = Suc (Suc 0 + 0)\<rparr> =
        (Continue, \<lparr>records = ?found, totalRecordValue = 0, requests = 6\<rparr>) \<and>
      0 < chunk_start 0 (resolve_end None 60) \<and>
      (\<forall>i < 11 - 0. getBlockRange (network example_client)
         (requests \<lparr>records = ?found, totalRecordValue = 0, requests = 6\<rparr> + i)
         (chunk_start 0 (chunk_start 0 (resolve_end None 60)))
         (chunk_start 0 (resolve_end None 60)) = None)"
    using scan
    by (simp add: example_client_def example_ledger_def resolve_private_key_def resolve_end_def
        chunk_start_def)
  have thrice: "(0::int) \<le> 0 \<and> resolve_private_key flaky_client None = Inr (PrivateKey ''k'') \<and>
      getLatestHeight (network flaky_client) 0 = Some 60 \<and> (0::int) < resolve_end None 60 \<and>
      (3::nat) \<le> 10 \<and>
      (\<forall>i < 3. getBlockRange (network flaky_client) (Suc 0 + i)
         (chunk_start 0 (resolve_end None 60)) (resolve_end None 60) = None) \<and>
      getBlockRange (network flaky_client) (Suc 0 + 3)
         (chunk_start 0 (resolve_end None 60)) (resolve_end None 60) =
        Some [example_block [''aaa'', ''spent'', ''xyz'', ''bbb'', ''cccc'']] \<and>
      for_each (scan_block ?qf)
        [example_block [''aaa'', ''spent'', ''xyz'', ''bbb'', ''cccc'']]
        \<lparr>records = [], totalRecordValue = 0, requests = Suc (Suc 0 + 3)\<rparr> =
        (Continue, \<lparr>records = ?found, totalRecordValue = 0, requests = 9\<rparr>) \<and>
      0 < chunk_start 0 (resolve_end None 60) \<and>
      (\<forall>i < 11 - 3. getBlockRange (network flaky_client)
         (requests \<lparr>records = ?found, totalRecordValue = 0, requests = 9\<rparr> + i)
         (chunk_start 0 (chunk_start 0 (resolve_end None 60)))
         (chunk_start 0 (resolve_end None 60)) = None)"
    using scan_flaky
    by (simp add: flaky_client_def example_client_def example_ledger_def resolve_private_key_def
        resolve_end_def chunk_start_def)
  have q: "?q = example_search\<lparr>maxMicrocredits := None\<rparr>"
    by (simp add: example_search_def example_client_def example_engine_def)
  note p1 = f [THEN conjunct1, rule_format, OF one]
  note p2 = f [THEN conjunct2, THEN conjunct1, rule_format, OF fetched, of 2]
  note p3 = f [THEN conjunct2, THEN conjunct2, THEN conjunct1, rule_format, OF all]
  note p4 = f [THEN conjunct2, THEN conjunct2, THEN conjunct2, THEN conjunct1, rule_format,
      OF valid, of None None None]
  note p5 = f [THEN conjunct2, THEN conjunct2, THEN conjunct2, THEN conjunct2, THEN conjunct1,
      rule_format, OF once]
  note p6 = f [THEN conjunct2, THEN conjunct2, THEN conjunct2, THEN conjunct2, THEN conjunct1,
      rule_format, OF thrice]
  note p7 = f [THEN conjunct2, THEN conjunct2, THEN conjunct2, THEN conjunct2, THEN conjunct2,
      rule_format, OF down, of None None None]
  from p4 q have p4': "findUnspentRecords example_client 0 0 None None None None None =
     Inr (records (scan_loop (example_search\<lparr>maxMicrocredits := None\<rparr>) 0 60 0
            \<lparr>records = [], totalRecordValue = 0, requests = 1\<rparr>))"
    by (simp add: resolve_end_def)
  from p1 p2 p3 p4' p5 p6 p7 show ?thesis by simp
qed

text \<open>
  Claim C2. The index \<open>amounts_found\<close> is declared inside the handler of one record, so
  every record is compared with the first target only. With the targets 100 and 200 the
  scan accepts two records of 150 microcredits: the second does not exceed the next
  unmatched target, 200.
\<close>

theorem findUnspentRecords_compares_first_target:
  "findUnspentRecords example_client 0 0 None None (Some [100, 200]) None None =
     Inr [\<lparr>nonce = ''aaa'', microcredits = 150\<rparr>, \<lparr>nonce = ''bbb'', microcredits = 150\<rparr>]"
  by code_simp

section \<open>Properties of the key provider\<close>

text \<open>
  Claim C4. \<open>functionKeys\<close> resolves in this order. Parameters with a prover URI and a
  verifier URI (non-empty strings) go to \<open>fetchKeys\<close>. With the cache enabled it looks
  under the cache key when one is given (a non-empty string) and under the prover URI
  when none is given, and returns the cached pair on a hit; on a miss it fetches both
  keys, stores their bytes under that same key (the cache key, or the prover URI when
  there is none) and returns them; with the cache disabled it fetches and stores nothing.
  Otherwise parameters with a cache key are looked up in the cache: a hit returns the
  cached pair, a miss returns the error value "Key not found in cache.". Anything else
  throws the invalid-parameters error.
\<close>

theorem functionKeys_resolution_order:
  "(proverUri ps = Some u \<and> u \<noteq> [] \<and> verifierUri ps = Some v \<and> v \<noteq> [] \<longrightarrow>
      functionKeys e net p (Some ps) = fetchKeys e net p u v (cacheKey ps)) \<and>
   (cacheOption p \<and> k = Some key \<and> key \<noteq> [] \<and> cache p key = Some (b1, b2) \<and>
    provingKeyFromBytes e b1 = Some pk \<and> verifyingKeyFromBytes e b2 = Some vk \<longrightarrow>
      fetchKeys e net p u v k = (Inr (KeyPair pk (Verifier vk)), p)) \<and>
   (cacheOption p \<and> (k = None \<or> k = Some []) \<and> cache p u = Some (b1, b2) \<and>
    provingKeyFromBytes e b1 = Some pk \<and> verifyingKeyFromBytes e b2 = Some vk \<longrightarrow>
      fetchKeys e net p u v k = (Inr (KeyPair pk (Verifier vk)), p)) \<and>
   (cacheOption p \<and> k = Some key \<and> key \<noteq> [] \<and> cache p key = None \<and>
    fetchBytes net u = Some b \<and>
    provingKeyFromBytes e b = Some pk \<and> getVerifyingKey e net v = Verifier vk \<longrightarrow>
      fetchKeys e net p u v k =
        (Inr (KeyPair pk (Verifier vk)),
         p\<lparr>cache := (cache p)(key \<mapsto> (proving_toBytes pk, verifying_toBytes vk))\<rparr>)) \<and>
   (cacheOption p \<and> (k = None \<or> k = Some []) \<and> cache p u = None \<and>
    fetchBytes net u = Some b \<and>
    provingKeyFromBytes e b = Some pk \<and> getVerifyingKey e net v = Verifier vk \<longrightarrow>
      fetchKeys e net p u v k =
        (Inr (KeyPair pk (Verifier vk)),
         p\<lparr>cache := (cache p)(u \<mapsto> (proving_toBytes pk, verifying_toBytes vk))\<rparr>)) \<and>
   (\<not> cacheOption p \<and> fetchBytes net u = Some b \<and> provingKeyFromBytes e b = Some pk \<longrightarrow>
      fetchKeys e net p u v k = (Inr (KeyPair pk (getVerifyingKey e net v)), p)) \<and>
   (\<not> (truthy (proverUri ps) \<and> truthy (verifierUri ps)) \<and> cacheKey ps = Some key \<and> key \<noteq> [] \<and>
    cache p key = Some (b1, b2) \<and>
    provingKeyFromBytes e b1 = Some pk \<and> verifyingKeyFromBytes e b2 = Some vk \<longrightarrow>
      functionKeys e net p (Some ps) = (Inr (KeyPair pk (Verifier vk)), p)) \<and>
   (\<not> (truthy (proverUri ps) \<and> truthy (verifierUri ps)) \<and> cacheKey ps = Some key \<and> key \<noteq> [] \<and>
    cache p key = None \<longrightarrow>
      functionKeys e net p (Some ps) = (Inr KeyNotFound, p)) \<and>
   (\<not> (truthy (proverUri ps) \<and> truthy (verifierUri ps)) \<and> \<not> truthy (cacheKey ps) \<longrightarrow>
      functionKeys e net p (Some ps) = (Inl InvalidParameters, p)) \<and>
   functionKeys e net p None = (Inl InvalidParameters, p)"
proof (intro conjI impI)
  assume "proverUri ps = Some u \<and> u \<noteq> [] \<and> verifierUri ps = Some v \<and> v \<noteq> []"
  then show "functionKeys e net p (Some ps) = fetchKeys e net p u v (cacheKey ps)"
    by (simp add: functionKeys_def Let_def)
next
  assume "cacheOption p \<and> k = Some key \<and> key \<noteq> [] \<and> cache p key = Some (b1, b2) \<and>
    provingKeyFromBytes e b1 = Some pk \<and> verifyingKeyFromBytes e b2 = Some vk"
  then show "fetchKeys e net p u v k = (Inr (KeyPair pk (Verifier vk)), p)"
    by (simp add: fetchKeys_def Let_def cache_key_or_def)
next
  assume h: "cacheOption p \<and> (k = None \<or> k = Some []) \<and> cache p u = Some (b1, b2) \<and>
    provingKeyFromBytes e b1 = Some pk \<and> verifyingKeyFromBytes e b2 = Some vk"
  then have "cache_key_or k u = u"
    by (auto simp: cache_key_or_def)
  with h show "fetchKeys e net p u v k = (Inr (KeyPair pk (Verifier vk)), p)"
    by (simp add: fetchKeys_def Let_def)
next
  assume "cacheOption p \<and> k = Some key \<and> key \<noteq> [] \<and> cache p key = None \<and>
    fetchBytes net u = Some b \<and>
    provingKeyFromBytes e b = Some pk \<and> getVerifyingKey e net v = Verifier vk"
  then show "fetchKeys e net p u v k =
        (Inr (KeyPair pk (Verifier vk)),
         p\<lparr>cache := (cache p)(key \<mapsto> (proving_toBytes pk, verifying_toBytes vk))\<rparr>)"
    by (simp add: fetchKeys_def Let_def cache_key_or_def)
next
  assume h: "cacheOption p \<and> (k = None \<or> k = Some []) \<and> cache p u = None \<and>
    fetchBytes net u = Some b \<and>
    provingKeyFromBytes e b = Some pk \<and> getVerifyingKey e net v = Verifier vk"
  then have "cache_key_or k u = u"
    by (auto simp: cache_key_or_def)
  with h show "fetchKeys e net p u v k =
        (Inr (KeyPair pk (Verifier vk)),
         p\<lparr>cache := (cache p)(u \<mapsto> (proving_toBytes pk, verifying_toBytes vk))\<rparr>)"
    by (simp add: fetchKeys_def Let_def)
next
  assume "\<not> cacheOption p \<and> fetchBytes net u = Some b \<and> provingKeyFromBytes e b = Some pk"
  then show "fetchKeys e net p u v k = (Inr (KeyPair pk (getVerifyingKey e net v)), p)"
    by (simp add: fetchKeys_def)
next
  assume "\<not> (truthy (proverUri ps) \<and> truthy (verifierUri ps)) \<and> cacheKey ps = Some key \<and> key \<noteq> [] \<and>
    cache p key = Some (b1, b2) \<and>
    provingKeyFromBytes e b1 = Some pk \<and> verifyingKeyFromBytes e b2 = Some vk"
  then show "functionKeys e net p (Some ps) = (Inr (KeyPair pk (Verifier vk)), p)"
    by (auto simp: functionKeys_def getKeys_def Let_def)
next
  assume "\<not> (truthy (proverUri ps) \<and> truthy (verifierUri ps)) \<and> cacheKey ps = Some key \<and> key \<noteq> [] \<and>
    cache p key = None"
  then show "functionKeys e net p (Some ps) = (Inr KeyNotFound, p)"
    by (auto simp: functionKeys_def getKeys_def Let_def)
next
  assume "\<not> (truthy (proverUri ps) \<and> truthy (verifierUri ps)) \<and> \<not> truthy (cacheKey ps)"
  then show "functionKeys e net p (Some ps) = (Inl InvalidParameters, p)"
    by (auto simp: functionKeys_def Let_def)
next
  show "functionKeys e net p None = (Inl InvalidParameters, p)"
    by (simp add: functionKeys_def)
qed

theorem functionKeys_resolution_order_witness:
  "functionKeys example_key_engine example_key_store example_key_provider
      (Some (example_cache_params ''credits.aleo/join'')) =
     (Inr (KeyPair (ProvingKey [7, 7]) (Verifier (VerifyingKey [8, 8]))), example_key_provider) \<and>
   functionKeys example_key_engine example_key_store example_key_provider
      (Some (example_cache_params ''credits.aleo/split'')) =
     (Inr KeyNotFound, example_key_provider) \<and>
   functionKeys example_key_engine example_key_store example_key_provider
      (Some (example_cache_params [])) =
     (Inl InvalidParameters, example_key_provider) \<and>
   functionKeys example_key_engine example_key_store example_key_provider (Some example_uri_params) =
     fetchKeys example_key_engine example_key_store example_key_provider
       ''https://keys/p'' ''https://keys/v'' None \<and>
   fetchKeys example_key_engine example_key_store example_key_provider
       ''https://keys/p'' ''https://keys/v'' None =
     (Inr (KeyPair (ProvingKey [1, 2, 3]) (Verifier (VerifyingKey [118, 107]))),
      example_key_provider\<lparr>cache := (cache example_key_provider)
         (''https://keys/p'' \<mapsto> ([1, 2, 3], [118, 107]))\<rparr>) \<and>
   fetchKeys example_key_engine example_key_store example_key_provider
       ''https://keys/p'' ''https://keys/v'' (Some []) =
     (Inr (KeyPair (ProvingKey [1, 2, 3]) (Verifier (VerifyingKey [118, 107]))),
      example_key_provider\<lparr>cache := (cache example_key_provider)
         (''https://keys/p'' \<mapsto> ([1, 2, 3], [118, 107]))\<rparr>) \<and>
   fetchKeys example_key_engine example_key_store example_key_provider
       ''https://keys/p'' ''https://keys/v'' (Some ''credits.aleo/split'') =
     (Inr (KeyPair (ProvingKey [1, 2, 3]) (Verifier (VerifyingKey [118, 107]))),
      example_key_provider\<lparr>cache := (cache example_key_provider)
         (''credits.aleo/split'' \<mapsto> ([1, 2, 3], [118, 107]))\<rparr>) \<and>
   fetchKeys example_key_engine example_key_store example_key_provider
       ''https://keys/p'' ''https://keys/v'' (Some ''credits.aleo/join'') =
     (Inr (KeyPair (ProvingKey [7, 7]) (Verifier (VerifyingKey [8, 8]))), example_key_provider) \<and>
   fetchKeys example_key_engine example_key_store
       (example_key_provider\<lparr>cache := (cache example_key_provider)
          (''https://keys/p'' \<mapsto> ([4, 5], [6]))\<rparr>)
       ''https://keys/p'' ''https://keys/v'' None =
     (Inr (KeyPair (ProvingKey [4, 5]) (Verifier (VerifyingKey [6]))),
      example_key_provider\<lparr>cache := (cache example_key_provider)
          (''https://keys/p'' \<mapsto> ([4, 5], [6]))\<rparr>) \<and>
   fetchKeys example_key_engine example_key_store (example_key_provider\<lparr>cacheOption := False\<rparr>)
       ''https://keys/p'' ''https://keys/v'' None =
     (Inr (KeyPair (ProvingKey [1, 2, 3])
        (getVerifyingKey example_key_engine example_key_store ''https://keys/v'')),
      example_key_provider\<lparr>cacheOption := False\<rparr>)"
proof -
  let ?warm = "example_key_provider\<lparr>cache := (cache example_key_provider)
          (''https://keys/p'' \<mapsto> ([4, 5], [6]))\<rparr>"
  note r = functionKeys_resolution_order
  have uris: "proverUri example_uri_params = Some ''https://keys/p'' \<and> ''https://keys/p'' \<noteq> [] \<and>
      verifierUri example_uri_params = Some ''https://keys/v'' \<and> ''https://keys/v'' \<noteq> []"
    by (simp add: example_uri_params_def)
  have hit: "cacheOption example_key_provider \<and>
      Some ''credits.aleo/join'' = Some ''credits.aleo/join'' \<and> ''credits.aleo/join'' \<noteq> [] \<and>
      cache example_key_provider ''credits.aleo/join'' = Some ([7, 7], [8, 8]) \<and>
      provingKeyFromBytes example_key_engine [7, 7] = Some (ProvingKey [7, 7]) \<and>
      verifyingKeyFromBytes example_key_engine [8, 8] = Some (VerifyingKey [8, 8])"
    by (simp add: example_key_provider_def example_key_engine_def)
  have hit_uri: "cacheOption ?warm \<and>
      ((None :: string option) = None \<or> (None :: string option) = Some []) \<and>
      cache ?warm ''https://keys/p'' = Some ([4, 5], [6]) \<and>
      provingKeyFromBytes example_key_engine [4, 5] = Some (ProvingKey [4, 5]) \<and>
      verifyingKeyFromBytes example_key_engine [6] = Some (VerifyingKey [6])"
    by (simp add: example_key_provider_def example_key_engine_def)
  have verifier: "getVerifyingKey example_key_engine example_key_store ''https://keys/v'' =
      Verifier (VerifyingKey [118, 107])"
    by code_simp
  have miss: "cacheOption example_key_provider \<and>
      ((None :: string option) = None \<or> (None :: string option) = Some []) \<and>
      cache example_key_provider ''https://keys/p'' = None \<and>
      fetchBytes example_key_store ''https://keys/p'' = Some [1, 2, 3] \<and>
      provingKeyFromBytes example_key_engine [1, 2, 3] = Some (ProvingKey [1, 2, 3]) \<and>
      getVerifyingKey example_key_engine example_key_store ''https://keys/v'' =
        Verifier (VerifyingKey [118, 107])"
    using verifier
    by (simp add: example_key_provider_def example_key_engine_def example_key_store_def)
  have miss_empty: "cacheOption example_key_provider \<and>
      (Some ([] :: string) = None \<or> Some ([] :: string) = Some []) \<and>
      cache example_key_provider ''https://keys/p'' = None \<and>
      fetchBytes example_key_store ''https://keys/p'' = Some [1, 2, 3] \<and>
      provingKeyFromBytes example_key_engine [1, 2, 3] = Some (ProvingKey [1, 2, 3]) \<and>
      getVerifyingKey example_key_engine example_key_store ''https://keys/v'' =
        Verifier (VerifyingKey [118, 107])"
    using verifier
    by (simp add: example_key_provider_def example_key_engine_def example_key_store_def)
  have miss_key: "cacheOption example_key_provider \<and>
      Some ''credits.aleo/split'' = Some ''credits.aleo/split'' \<and> ''credits.aleo/split'' \<noteq> [] \<and>
      cache example_key_provider ''credits.aleo/split'' = None \<and>
      fetchBytes example_key_store ''https://keys/p'' = Some [1, 2, 3] \<and>
      provingKeyFromBytes example_key_engine [1, 2, 3] = Some (ProvingKey [1, 2, 3]) \<and>
      getVerifyingKey example_key_engine example_key_store ''https://keys/v'' =
        Verifier (VerifyingKey [118, 107])"
    using verifier
    by (simp add: example_key_provider_def example_key_engine_def example_key_store_def)
  have off: "\<not> cacheOption (example_key_provider\<lparr>cacheOption := False\<rparr>) \<and>
      fetchBytes example_key_store ''https://keys/p'' = Some [1, 2, 3] \<and>
      provingKeyFromBytes example_key_engine [1, 2, 3] = Some (ProvingKey [1, 2, 3])"
    by (simp add: example_key_engine_def example_key_store_def)
  have join: "\<not> (truthy (proverUri (example_cache_params ''credits.aleo/join'')) \<and>
        truthy (verifierUri (example_cache_params ''credits.aleo/join''))) \<and>
      cacheKey (example_cache_params ''credits.aleo/join'') = Some ''credits.aleo/join'' \<and>
      ''credits.aleo/join'' \<noteq> [] \<and>
      cache example_key_provider ''credits.aleo/join'' = Some ([7, 7], [8, 8]) \<and>
      provingKeyFromBytes example_key_engine [7, 7] = Some (ProvingKey [7, 7]) \<and>
      verifyingKeyFromBytes example_key_engine [8, 8] = Some (VerifyingKey [8, 8])"
    by (simp add: example_cache_params_def example_key_provider_def example_key_engine_def)
  have split: "\<not> (truthy (proverUri (example_cache_params ''credits.aleo/split'')) \<and>
        truthy (verifierUri (example_cache_params ''credits.aleo/split''))) \<and>
      cacheKey (example_cache_params ''credits.aleo/split'') = Some ''credits.aleo/split'' \<and>
      ''credits.aleo/split'' \<noteq> [] \<and>
      cache example_key_provider ''credits.aleo/split'' = None"
    by (simp add: example_cache_params_def example_key_provider_def)
  have none: "\<not> (truthy (proverUri (example_cache_params [])) \<and>
        truthy (verifierUri (example_cache_params []))) \<and>
      \<not> truthy (cacheKey (example_cache_params []))"
    by (simp add: example_cache_params_def)
  note p1 = r [THEN conjunct1, rule_format, OF uris]
  note p2 = r [THEN conjunct2, THEN conjunct1, rule_format, OF hit]
  note p3 = r [THEN conjunct2, THEN conjunct2, THEN conjunct1, rule_format, OF hit_uri]
  note p4 = r [THEN conjunct2, THEN conjunct2, THEN conjunct2, THEN conjunct1, rule_format,
      OF miss_key]
  note p5 = r [THEN conjunct2, THEN conjunct2, THEN conjunct2, THEN conjunct2, THEN conjunct1,
      rule_format, OF miss]
  note p5e = r [THEN conjunct2, THEN conjunct2, THEN conjunct2, THEN conjunct2, THEN conjunct1,
      rule_format, OF miss_empty]
  note p6 = r [THEN conjunct2, THEN conjunct2, THEN conjunct2, THEN conjunct2, THEN conjunct2,
      THEN conjunct1, rule_format, OF off]
  note p7 = r [THEN conjunct2, THEN conjunct2, THEN conjunct2, THEN conjunct2, THEN conjunct2,
      THEN conjunct2, THEN conjunct1, rule_format, OF join]
  note p8 = r [THEN conjunct2, THEN conjunct2, THEN conjunct2, THEN conjunct2, THEN conjunct2,
      THEN conjunct2, THEN conjunct2, THEN conjunct1, rule_format, OF split]
  note p9 = r [THEN conjunct2, THEN conjunct2, THEN conjunct2, THEN conjunct2, THEN conjunct2,
      THEN conjunct2, THEN conjunct2, THEN conjunct2, THEN conjunct1, rule_format, OF none]
  have "cacheKey example_uri_params = None" by (simp add: example_uri_params_def)
  with p1 [of example_key_engine example_key_store example_key_provider]
  have p1': "functionKeys example_key_engine example_key_store example_key_provider
      (Some example_uri_params) =
     fetchKeys example_key_engine example_key_store example_key_provider
       ''https://keys/p'' ''https://keys/v'' None"
    by simp
  from p4 have p4': "fetchKeys example_key_engine example_key_store example_key_provider
       ''https://keys/p'' ''https://keys/v'' (Some ''credits.aleo/split'') =
     (Inr (KeyPair (ProvingKey [1, 2, 3]) (Verifier (VerifyingKey [118, 107]))),
      example_key_provider\<lparr>cache := (cache example_key_provider)
         (''credits.aleo/split'' \<mapsto> ([1, 2, 3], [118, 107]))\<rparr>)"
    by simp
  from p5 have p5': "fetchKeys example_key_engine example_key_store example_key_provider
       ''https://keys/p'' ''https://keys/v'' None =
     (Inr (KeyPair (ProvingKey [1, 2, 3]) (Verifier (VerifyingKey [118, 107]))),
      example_key_provider\<lparr>cache := (cache example_key_provider)
         (''https://keys/p'' \<mapsto> ([1, 2, 3], [118, 107]))\<rparr>)"
    by simp
  from p5e have p5e': "fetchKeys example_key_engine example_key_store example_key_provider
       ''https://keys/p'' ''https://keys/v'' (Some []) =
     (Inr (KeyPair (ProvingKey [1, 2, 3]) (Verifier (VerifyingKey [118, 107]))),
      example_key_provider\<lparr>cache := (cache example_key_provider)
         (''https://keys/p'' \<mapsto> ([1, 2, 3], [118, 107]))\<rparr>)"
    by simp
  show ?thesis
    by (intro conjI) (rule p7 p8 p9 p1' p5' p5e' p4' p2 p3 p6)+
qed

section \<open>Properties of the record provider\<close>

text \<open>
  Claim C10. When the parameters have no numeric \<open>endHeight\<close> (no parameters, no such
  property, or a value that is not a number), a \<open>startHeight\<close> in them is ignored: the
  search is the one without parameters, from height 0 to the height the ledger reports.
  With a numeric \<open>endHeight\<close> the \<open>startHeight\<close> of the parameters is used.
\<close>

theorem findCreditsRecords_startHeight:
  "((search_endHeight sp = None \<or> search_endHeight sp = Some NotANumber) \<longrightarrow>
      findCreditsRecords p t targets unspent excluded (Some sp) =
      findCreditsRecords p t targets unspent excluded None) \<and>
   findCreditsRecords p t targets unspent excluded None =
     (case getLatestHeight (network (networkClient p)) t of
        None \<Rightarrow> Inl LatestHeightUnavailable
      | Some h \<Rightarrow>
          if 0 \<ge> h then Inl StartNotBelowEnd
          else findUnspentRecords (networkClient p) (Suc t) 0 (Some h)
                 (Some (KeyObject (provider_account p))) (Some targets) None excluded) \<and>
   (search_startHeight sp = Some v \<and> search_endHeight sp = Some (Number e) \<and> e \<noteq> 0 \<longrightarrow>
      findCreditsRecords p t targets unspent excluded (Some sp) =
        (if v \<ge> e then Inl StartNotBelowEnd
         else findUnspentRecords (networkClient p) t v (Some e)
                (Some (KeyObject (provider_account p))) (Some targets) None excluded)) \<and>
   (search_startHeight sp = Some v \<and> search_endHeight sp = Some (Number 0) \<longrightarrow>
      findCreditsRecords p t targets unspent excluded (Some sp) =
        (case getLatestHeight (network (networkClient p)) t of
           None \<Rightarrow> Inl LatestHeightUnavailable
         | Some h \<Rightarrow>
             if v \<ge> h then Inl StartNotBelowEnd
             else findUnspentRecords (networkClient p) (Suc t) v (Some h)
                    (Some (KeyObject (provider_account p))) (Some targets) None excluded))"
proof (intro conjI impI)
  assume "search_endHeight sp = None \<or> search_endHeight sp = Some NotANumber"
  then show "findCreditsRecords p t targets unspent excluded (Some sp) =
      findCreditsRecords p t targets unspent excluded None"
    by (auto simp: findCreditsRecords_def split: option.splits)
next
  show "findCreditsRecords p t targets unspent excluded None =
     (case getLatestHeight (network (networkClient p)) t of
        None \<Rightarrow> Inl LatestHeightUnavailable
      | Some h \<Rightarrow>
          if 0 \<ge> h then Inl StartNotBelowEnd
          else findUnspentRecords (networkClient p) (Suc t) 0 (Some h)
                 (Some (KeyObject (provider_account p))) (Some targets) None excluded)"
    by (simp add: findCreditsRecords_def search_range_def split: option.splits)
next
  assume "search_startHeight sp = Some v \<and> search_endHeight sp = Some (Number e) \<and> e \<noteq> 0"
  then show "findCreditsRecords p t targets unspent excluded (Some sp) =
        (if v \<ge> e then Inl StartNotBelowEnd
         else findUnspentRecords (networkClient p) t v (Some e)
                (Some (KeyObject (provider_account p))) (Some targets) None excluded)"
    by (simp add: findCreditsRecords_def search_range_def)
next
  assume "search_startHeight sp = Some v \<and> search_endHeight sp = Some (Number 0)"
  then show "findCreditsRecords p t targets unspent excluded (Some sp) =
        (case getLatestHeight (network (networkClient p)) t of
           None \<Rightarrow> Inl LatestHeightUnavailable
         | Some h \<Rightarrow>
             if v \<ge> h then Inl StartNotBelowEnd
             else findUnspentRecords (networkClient p) (Suc t) v (Some h)
                    (Some (KeyObject (provider_account p))) (Some targets) None excluded)"
    by (simp add: findCreditsRecords_def search_range_def split: option.splits)
qed

theorem findCreditsRecords_startHeight_witness:
  "findCreditsRecords example_provider 0 [100] True None
      (Some \<lparr>search_startHeight = Some 70, search_endHeight = None\<rparr>) =
   findCreditsRecords example_provider 0 [100] True None None \<and>
   findCreditsRecords example_provider 0 [100] True None
      (Some \<lparr>search_startHeight = Some 70, search_endHeight = Some (Number 60)\<rparr>) =
   Inl StartNotBelowEnd \<and>
   findCreditsRecords example_provider 0 [100] True None
      (Some \<lparr>search_startHeight = Some 70, search_endHeight = Some (Number 0)\<rparr>) =
   Inl StartNotBelowEnd"
proof -
  note r = findCreditsRecords_startHeight
  have absent: "search_endHeight \<lparr>search_startHeight = Some 70, search_endHeight = None\<rparr> = None \<or>
      search_endHeight \<lparr>search_startHeight = Some 70, search_endHeight = None\<rparr> = Some NotANumber"
    by simp
  have numeric: "search_startHeight \<lparr>search_startHeight = Some 70, search_endHeight = Some (Number 60)\<rparr>
        = Some 70 \<and>
      search_endHeight \<lparr>search_startHeight = Some 70, search_endHeight = Some (Number 60)\<rparr>
        = Some (Number 60) \<and> (60::int) \<noteq> 0"
    by simp
  note p1 = r [THEN conjunct1, rule_format, OF absent]
  have zero: "search_startHeight \<lparr>search_startHeight = Some 70, search_endHeight = Some (Number 0)\<rparr>
        = Some 70 \<and>
      search_endHeight \<lparr>search_startHeight = Some 70, search_endHeight = Some (Number 0)\<rparr>
        = Some (Number 0)"
    by simp
  have height: "getLatestHeight (network (networkClient example_provider)) 0 = Some 60"
    by (simp add: example_provider_def example_client_def example_ledger_def)
  note p3 = r [THEN conjunct2, THEN conjunct2, THEN conjunct1, rule_format, OF numeric]
  note p4 = r [THEN conjunct2, THEN conjunct2, THEN conjunct2, rule_format, OF zero]
  from p1 [of example_provider 0 "[100]" True None] p3 [of example_provider 0 "[100]" True None]
    p4 [of example_provider 0 "[100]" True None] height
  show ?thesis by simp
qed

section \<open>Properties of the program manager\<close>


lemma function_keys_step_failure:
  assumes "pm_functionKeys pm ksp = None \<or> pm_functionKeys pm ksp = Some KeyNotFound"
    and "pk = None \<or> vk = None"
  shows "function_keys_step pm pk vk ksp = ([KeysNotFoundLog], (pk, map_option Verifier vk))"
  using assms by (auto simp: function_keys_step_def)

lemma buildExecutionTransaction_without_keys:
  assumes "pm_functionKeys pm (opt_keySearchParams options) = None \<or>
           pm_functionKeys pm (opt_keySearchParams options) = Some KeyNotFound"
    and "opt_provingKey options = None" and "opt_verifyingKey options = None"
    and "resolve_program pm (opt_programName options) (opt_program options) = (ev1, Inr source)"
    and "execution_private_key pm (opt_privateKey options) = (ev2, Inr key)"
    and "or_fee_record_error
           (fee_record_step pm (opt_privateFee options) (opt_fee options) []
              (opt_feeRecord options) (opt_recordSearchParams options)) = (ev3, Inr fr)"
    and "fee_keys_step pm (opt_privateFee options) = (ev4, Inr fk)"
    and "destructure fk = (ev5, Inr (fpk, fvk))"
    and "imports_step pm (opt_programName options) source (opt_imports options) = (ev6, Inr imps)"
  shows "buildExecutionTransaction pm options =
     (ev1 @ ev2 @ ev3 @ ev4 @ ev5 @ [KeysNotFoundLog] @ ev6,
      Inr \<lparr>req_privateKey = key, req_program = source,
           req_function = opt_functionName options, req_inputs = opt_inputs options,
           req_fee = opt_fee options, req_feeRecord = fr, req_imports = imps,
           req_provingKey = None, req_verifyingKey = None,
           req_feeProvingKey = fpk, req_feeVerifyingKey = fvk,
           req_offlineQuery = opt_offlineQuery options\<rparr>)"
proof -
  have keys: "function_keys_step pm (opt_provingKey options) (opt_verifyingKey options)
      (opt_keySearchParams options) = ([KeysNotFoundLog], (None, None))"
    using function_keys_step_failure [OF assms(1), of "opt_provingKey options" "opt_verifyingKey options"]
      assms(2,3) by simp
  show ?thesis
    using assms(4-9) keys by (simp add: buildExecutionTransaction_def and_then_def)
qed

lemma buildExecutionTransaction_error_independent:
  "snd (buildExecutionTransaction (pm\<lparr>pm_functionKeys := f\<rparr>) options) = Inl x \<longleftrightarrow>
   snd (buildExecutionTransaction pm options) = Inl x"
proof -
  have steps:
    "resolve_program (pm\<lparr>pm_functionKeys := f\<rparr>) = resolve_program pm"
    "execution_private_key (pm\<lparr>pm_functionKeys := f\<rparr>) = execution_private_key pm"
    "fee_record_step (pm\<lparr>pm_functionKeys := f\<rparr>) = fee_record_step pm"
    "fee_keys_step (pm\<lparr>pm_functionKeys := f\<rparr>) = fee_keys_step pm"
    "imports_step (pm\<lparr>pm_functionKeys := f\<rparr>) = imports_step pm"
    by (simp_all add: fun_eq_iff resolve_program_def execution_private_key_def
        fee_record_step_def fee_keys_step_def imports_step_def getCreditsRecord_def
        given_record_def
        cong: option.case_cong record_input.case_cong program_input.case_cong if_cong)
  obtain ev pk vk where k: "function_keys_step pm (opt_provingKey options)
      (opt_verifyingKey options) (opt_keySearchParams options) = (ev, (pk, vk))"
    by (metis prod.exhaust)
  obtain ev' pk' vk' where k': "function_keys_step (pm\<lparr>pm_functionKeys := f\<rparr>)
      (opt_provingKey options) (opt_verifyingKey options) (opt_keySearchParams options) =
      (ev', (pk', vk'))"
    by (metis prod.exhaust)
  show ?thesis
    using k k'
    by (simp add: buildExecutionTransaction_def steps and_then_def
        split: prod.splits sum.splits)
qed

lemma run_without_keys:
  assumes "pm_functionKeys pm ksp = None \<or> pm_functionKeys pm ksp = Some KeyNotFound"
    and "execution_private_key pm privateKey = (ev, Inr key)"
  shows "run pm source function_name ins proveExecution imps ksp None None privateKey offlineQuery =
     (ev @ [KeysNotFoundLog],
      Inr \<lparr>run_privateKey = key, run_program = source, run_function = function_name,
           run_inputs = ins, run_proveExecution = proveExecution, run_imports = imps,
           run_provingKey = None, run_verifyingKey = None, run_offlineQuery = offlineQuery\<rparr>)"
  using function_keys_step_failure [OF assms(1), of None None] assms(2)
  by (simp add: run_def and_then_def)

text \<open>
  Claim C8. When the caller gives no proving and verifying key and the key provider's
  \<open>functionKeys\<close> throws (or returns its Error value, which cannot be destructured), the
  step that resolves the function keys writes one line to the console and leaves the
  keys undefined. If the other steps succeed, \<open>buildExecutionTransaction\<close> and \<open>run\<close> hand
  the engine a request with both keys undefined; and whether \<open>buildExecutionTransaction\<close>
  throws, and what, does not depend on the key provider's \<open>functionKeys\<close> at all.
\<close>

theorem function_keys_failure_not_fatal:
  "((pm_functionKeys pm ksp = None \<or> pm_functionKeys pm ksp = Some KeyNotFound) \<and>
    (pk = None \<or> vk = None) \<longrightarrow>
      function_keys_step pm pk vk ksp = ([KeysNotFoundLog], (pk, map_option Verifier vk))) \<and>
   ((pm_functionKeys pm (opt_keySearchParams options) = None \<or>
     pm_functionKeys pm (opt_keySearchParams options) = Some KeyNotFound) \<and>
    opt_provingKey options = None \<and> opt_verifyingKey options = None \<and>
    resolve_program pm (opt_programName options) (opt_program options) = (ev1, Inr source) \<and>
    execution_private_key pm (opt_privateKey options) = (ev2, Inr key) \<and>
    or_fee_record_error
      (fee_record_step pm (opt_privateFee options) (opt_fee options) []
         (opt_feeRecord options) (opt_recordSearchParams options)) = (ev3, Inr fr) \<and>
    fee_keys_step pm (opt_privateFee options) = (ev4, Inr fk) \<and>
    destructure fk = (ev5, Inr (fpk, fvk)) \<and>
    imports_step pm (opt_programName options) source (opt_imports options) = (ev6, Inr imps) \<longrightarrow>
      buildExecutionTransaction pm options =
        (ev1 @ ev2 @ ev3 @ ev4 @ ev5 @ [KeysNotFoundLog] @ ev6,
         Inr \<lparr>req_privateKey = key, req_program = source,
              req_function = opt_functionName options, req_inputs = opt_inputs options,
              req_fee = opt_fee options, req_feeRecord = fr, req_imports = imps,
              req_provingKey = None, req_verifyingKey = None,
              req_feeProvingKey = fpk, req_feeVerifyingKey = fvk,
              req_offlineQuery = opt_offlineQuery options\<rparr>)) \<and>
   (snd (buildExecutionTransaction (pm\<lparr>pm_functionKeys := f\<rparr>) options) = Inl x \<longleftrightarrow>
    snd (buildExecutionTransaction pm options) = Inl x) \<and>
   ((pm_functionKeys pm ksp = None \<or> pm_functionKeys pm ksp = Some KeyNotFound) \<and>
    execution_private_key pm privateKey = (ev, Inr key) \<longrightarrow>
      run pm source function_name ins proveExecution imps ksp None None privateKey offlineQuery =
        (ev @ [KeysNotFoundLog],
         Inr \<lparr>run_privateKey = key, run_program = source, run_function = function_name,
              run_inputs = ins, run_proveExecution = proveExecution, run_imports = imps,
              run_provingKey = None, run_verifyingKey = None, run_offlineQuery = offlineQuery\<rparr>))"
proof (intro conjI impI)
  assume "(pm_functionKeys pm ksp = None \<or> pm_functionKeys pm ksp = Some KeyNotFound) \<and>
    (pk = None \<or> vk = None)"
  then show "function_keys_step pm pk vk ksp = ([KeysNotFoundLog], (pk, map_option Verifier vk))"
    using function_keys_step_failure by blast
next
  assume h: "(pm_functionKeys pm (opt_keySearchParams options) = None \<or>
     pm_functionKeys pm (opt_keySearchParams options) = Some KeyNotFound) \<and>
    opt_provingKey options = None \<and> opt_verifyingKey options = None \<and>
    resolve_program pm (opt_programName options) (opt_program options) = (ev1, Inr source) \<and>
    execution_private_key pm (opt_privateKey options) = (ev2, Inr key) \<and>
    or_fee_record_error
      (fee_record_step pm (opt_privateFee options) (opt_fee options) []
         (opt_feeRecord options) (opt_recordSearchParams options)) = (ev3, Inr fr) \<and>
    fee_keys_step pm (opt_privateFee options) = (ev4, Inr fk) \<and>
    destructure fk = (ev5, Inr (fpk, fvk)) \<and>
    imports_step pm (opt_programName options) source (opt_imports options) = (ev6, Inr imps)"
  show "buildExecutionTransaction pm options =
        (ev1 @ ev2 @ ev3 @ ev4 @ ev5 @ [KeysNotFoundLog] @ ev6,
         Inr \<lparr>req_privateKey = key, req_program = source,
              req_function = opt_functionName options, req_inputs = opt_inputs options,
              req_fee = opt_fee options, req_feeRecord = fr, req_imports = imps,
              req_provingKey = None, req_verifyingKey = None,
              req_feeProvingKey = fpk, req_feeVerifyingKey = fvk,
              req_offlineQuery = opt_offlineQuery options\<rparr>)"
    by (rule buildExecutionTransaction_without_keys) (use h in blast)+
next
  show "snd (buildExecutionTransaction (pm\<lparr>pm_functionKeys := f\<rparr>) options) = Inl x \<longleftrightarrow>
    snd (buildExecutionTransaction pm options) = Inl x"
    by (rule buildExecutionTransaction_error_independent)
next
  assume "(pm_functionKeys pm ksp = None \<or> pm_functionKeys pm ksp = Some KeyNotFound) \<and>
    execution_private_key pm privateKey = (ev, Inr key)"
  then show "run pm source function_name ins proveExecution imps ksp None None privateKey
        offlineQuery =
        (ev @ [KeysNotFoundLog],
         Inr \<lparr>run_privateKey = key, run_program = source, run_function = function_name,
              run_inputs = ins, run_proveExecution = proveExecution, run_imports = imps,
              run_provingKey = None, run_verifyingKey = None, run_offlineQuery = offlineQuery\<rparr>)"
    using run_without_keys by blast
qed

theorem function_keys_failure_not_fatal_witness:
  "function_keys_step example_manager None None (opt_keySearchParams example_options) =
     ([KeysNotFoundLog], (None, map_option Verifier None)) \<and>
   buildExecutionTransaction example_manager example_options =
     ([] @ [] @ [] @ [] @ [] @ [KeysNotFoundLog] @ [],
      Inr \<lparr>req_privateKey = PrivateKey ''k'', req_program = ''program hello.aleo;'',
           req_function = opt_functionName example_options,
           req_inputs = opt_inputs example_options,
           req_fee = opt_fee example_options, req_feeRecord = None, req_imports = None,
           req_provingKey = None, req_verifyingKey = None,
           req_feeProvingKey = ProvingKey [3], req_feeVerifyingKey = Verifier (VerifyingKey [4]),
           req_offlineQuery = opt_offlineQuery example_options\<rparr>) \<and>
   run example_manager ''program hello.aleo;'' ''hello'' [''5u32''] False None
       (opt_keySearchParams example_options) None None None None =
     ([] @ [KeysNotFoundLog],
      Inr \<lparr>run_privateKey = PrivateKey ''k'', run_program = ''program hello.aleo;'',
           run_function = ''hello'', run_inputs = [''5u32''], run_proveExecution = False,
           run_imports = None, run_provingKey = None, run_verifyingKey = None,
           run_offlineQuery = None\<rparr>)"
proof -
  note r = function_keys_failure_not_fatal
  have fails: "pm_functionKeys example_manager (opt_keySearchParams example_options) = None \<or>
      pm_functionKeys example_manager (opt_keySearchParams example_options) = Some KeyNotFound"
    by (simp add: example_manager_def)
  have step: "(pm_functionKeys example_manager (opt_keySearchParams example_options) = None \<or>
      pm_functionKeys example_manager (opt_keySearchParams example_options) = Some KeyNotFound) \<and>
      ((None::proving_key option) = None \<or> (None::verifying_key option) = None)"
    using fails by simp
  have build: "(pm_functionKeys example_manager (opt_keySearchParams example_options) = None \<or>
       pm_functionKeys example_manager (opt_keySearchParams example_options) = Some KeyNotFound) \<and>
      opt_provingKey example_options = None \<and> opt_verifyingKey example_options = None \<and>
      resolve_program example_manager (opt_programName example_options)
        (opt_program example_options) = ([], Inr ''program hello.aleo;'') \<and>
      execution_private_key example_manager (opt_privateKey example_options) =
        ([], Inr (PrivateKey ''k'')) \<and>
      or_fee_record_error
        (fee_record_step example_manager (opt_privateFee example_options)
           (opt_fee example_options) [] (opt_feeRecord example_options)
           (opt_recordSearchParams example_options)) = ([], Inr None) \<and>
      fee_keys_step example_manager (opt_privateFee example_options) =
        ([], Inr (KeyPair (ProvingKey [3]) (Verifier (VerifyingKey [4])))) \<and>
      destructure (KeyPair (ProvingKey [3]) (Verifier (VerifyingKey [4]))) =
        ([], Inr (ProvingKey [3], Verifier (VerifyingKey [4]))) \<and>
      imports_step example_manager (opt_programName example_options) ''program hello.aleo;''
        (opt_imports example_options) = ([], Inr None)"
    using fails
    by (simp add: example_manager_def example_options_def resolve_program_def
        execution_private_key_def or_fee_record_error_def fee_record_step_def
        fee_keys_step_def destructure_def imports_step_def)
  have offline: "(pm_functionKeys example_manager (opt_keySearchParams example_options) = None \<or>
      pm_functionKeys example_manager (opt_keySearchParams example_options) = Some KeyNotFound) \<and>
      execution_private_key example_manager None = ([], Inr (PrivateKey ''k''))"
    using fails by (simp add: example_manager_def execution_private_key_def)
  note p1 = r [THEN conjunct1, rule_format, OF step]
  note p2 = r [THEN conjunct2, THEN conjunct1, rule_format, OF build]
  note p4 = r [THEN conjunct2, THEN conjunct2, THEN conjunct2, rule_format, OF offline]
  show ?thesis
    by (intro conjI) (rule p1 p2 p4)+
qed





























end
